theory Spec2Isabelle
  imports Complex_Main
begin

section \<open>The remote client of firepy (firepy/app/client.py)\<close>

text \<open>
  The class \<open>RemoteClient\<close> wraps an HTTP service. Its methods build a URL from the
  client's \<open>url\<close> field, call \<open>requests.get\<close> or \<open>requests.post\<close>, and decode the
  response. The model makes the effects explicit: a world holds the client object, the
  trace of library calls that touch the network or decode a response, and the pending
  console input. The libraries (requests, json, pandas, dill, pprint, the file system)
  are parameters, collected in an environment record; a Python object they produce or
  consume is a value of the type variable \<open>'v\<close>. Calls that the source wraps in
  \<open>try\<close> return a sum, \<open>Inl\<close> carrying the exception raised. The library calls
  outside a \<open>try\<close> (the transport, reading a file, serialising the data of a request)
  are taken to return: the source has no handler for them, and what a method does when
  one of them raises is the library's exception reaching the caller. Calls to \<open>logger\<close>
  have no effect on the client, the network or the result and are left out.
\<close>

subsection \<open>Exceptions\<close>

datatype exc =
    ValueError
  | JSONDecodeError
  | UnpicklingError
  | EOFError
  | AttributeError
  | TypeError

text \<open>
  \<open>isinstance e c\<close>: an exception of class \<open>e\<close> is caught by \<open>except c\<close>.
  \<open>json.JSONDecodeError\<close> derives from \<open>ValueError\<close>; the other classes are unrelated.
\<close>

definition isinstance :: "exc \<Rightarrow> exc \<Rightarrow> bool" where
  "isinstance e c = (e = c \<or> (e = JSONDecodeError \<and> c = ValueError))"

text \<open>\<open>try: return body  except cls: return handler\<close>\<close>

definition try_except :: "exc + 'a \<Rightarrow> exc \<Rightarrow> 'a \<Rightarrow> exc + 'a" where
  "try_except body cls handler =
     (case body of
        Inr v \<Rightarrow> Inr v
      | Inl e \<Rightarrow> if isinstance e cls then Inr handler else Inl e)"

subsection \<open>Requests, responses and the world\<close>

datatype verb = GET | POST

text \<open>A value of the \<open>params\<close> dict of a request.\<close>

datatype qval =
    QStr string
  | QInt int
  | QFloat real
  | QList "string list"
  | QNone

text \<open>The \<open>data\<close> of a request: text, or the bytes \<open>dill.dumps\<close> produced.\<close>

datatype body = BText string | BBytes string

record request =
  r_verb :: verb
  r_url :: string
  r_params :: "(string \<rightharpoonup> qval) option"
  r_data :: "body option"

record response =
  resp_text :: string
  resp_content :: string

text \<open>
  The three decodings: \<open>response.json()\<close>, \<open>pd.read_json(response.json(), orient='split')\<close>
  and \<open>dill.loads(response.content)\<close>.
\<close>

datatype decoding = JSON | Tabular | Pickled

datatype event = Http request response | Decode decoding response

record client =
  host :: string
  port :: int
  url :: string

record world =
  self :: client
  trace :: "event list"
  stdin :: "string list"

text \<open>What a method returns: a decoded object, a list of objects, a string or \<open>None\<close>.\<close>

datatype 'v pyval = Val 'v | Vals "'v list" | Str string | PyNone

record 'v env =
  respond :: "event list \<Rightarrow> request \<Rightarrow> response"
  json :: "response \<Rightarrow> exc + 'v"
  read_json :: "'v \<Rightarrow> exc + 'v"
  loads :: "string \<Rightarrow> exc + 'v"
  dict_values :: "'v \<Rightarrow> exc + 'v list"
  dumps :: "'v \<Rightarrow> string"
  json_dumps :: "'v \<Rightarrow> string"
  idfstr :: "'v \<Rightarrow> string"
  read_text :: "string \<Rightarrow> string"
  read_csv :: "string \<Rightarrow> 'v"
  pformat :: "(string \<rightharpoonup> string) \<Rightarrow> string"

subsection \<open>Strings\<close>

definition digit :: "nat \<Rightarrow> char" where
  "digit n = ''0123456789'' ! n"

function str_nat :: "nat \<Rightarrow> string" where
  "str_nat n = (if n < 10 then [digit n] else str_nat (n div 10) @ [digit (n mod 10)])"
  by pat_completeness auto
termination
  by (relation "measure id") auto

declare str_nat.simps [simp del]

text \<open>\<open>str(port)\<close>, as \<open>'{port}'.format(port=...)\<close> renders an int.\<close>

definition str_int :: "int \<Rightarrow> string" where
  "str_int i = (if i < 0 then CHR ''-'' # str_nat (nat (- i)) else str_nat (nat i))"

definition startswith :: "string \<Rightarrow> string \<Rightarrow> bool" where
  "startswith t p = (take (length p) t = p)"

text \<open>\<open>epw_text.replace('\r\n', '\n')\<close>\<close>

fun replace_crlf :: "string \<Rightarrow> string" where
  "replace_crlf (a # b # cs) =
     (if a = CHR 0x0D \<and> b = CHR 0x0A then CHR 0x0A # replace_crlf cs
      else a # replace_crlf (b # cs))"
| "replace_crlf cs = cs"

subsection \<open>The library calls that leave a mark\<close>

definition requests_call ::
  "'v env \<Rightarrow> verb \<Rightarrow> string \<Rightarrow> (string \<rightharpoonup> qval) option \<Rightarrow> body option \<Rightarrow> world
     \<Rightarrow> response \<times> world" where
  "requests_call env v u ps dat s =
     (let rq = \<lparr>r_verb = v, r_url = u, r_params = ps, r_data = dat\<rparr>;
          rs = respond env (trace s) rq
      in (rs, s\<lparr>trace := trace s @ [Http rq rs]\<rparr>))"

definition requests_get ::
  "'v env \<Rightarrow> string \<Rightarrow> (string \<rightharpoonup> qval) option \<Rightarrow> world \<Rightarrow> response \<times> world" where
  "requests_get env u ps s = requests_call env GET u ps None s"

definition requests_post ::
  "'v env \<Rightarrow> string \<Rightarrow> (string \<rightharpoonup> qval) option \<Rightarrow> body option \<Rightarrow> world
     \<Rightarrow> response \<times> world" where
  "requests_post env u ps dat s = requests_call env POST u ps dat s"

text \<open>
  The decoders. Each one evaluates its library expression on the response and leaves a
  mark in the trace: which decoding was attempted, and on which response.
\<close>

text \<open>\<open>response.json()\<close>\<close>

definition response_json :: "'v env \<Rightarrow> response \<Rightarrow> world \<Rightarrow> (exc + 'v) \<times> world" where
  "response_json env response s =
     (json env response, s\<lparr>trace := trace s @ [Decode JSON response]\<rparr>)"

text \<open>\<open>pd.read_json(response.json(), orient='split')\<close>\<close>

definition pd_read_json :: "'v env \<Rightarrow> response \<Rightarrow> world \<Rightarrow> (exc + 'v) \<times> world" where
  "pd_read_json env response s =
     ((case json env response of
         Inl e \<Rightarrow> Inl e
       | Inr j \<Rightarrow> read_json env j),
      s\<lparr>trace := trace s @ [Decode Tabular response]\<rparr>)"

text \<open>\<open>dill.loads(response.content)\<close>\<close>

definition dill_loads :: "'v env \<Rightarrow> response \<Rightarrow> world \<Rightarrow> (exc + 'v) \<times> world" where
  "dill_loads env response s =
     (loads env (resp_content response), s\<lparr>trace := trace s @ [Decode Pickled response]\<rparr>)"

text \<open>\<open>input(prompt)\<close> reads one line; at the end of the input it raises \<open>EOFError\<close>.\<close>

definition input_line :: "world \<Rightarrow> (exc + string) \<times> world" where
  "input_line s =
     (case stdin s of
        [] \<Rightarrow> (Inl EOFError, s)
      | l # ls \<Rightarrow> (Inr l, s\<lparr>stdin := ls\<rparr>))"

subsection \<open>The class\<close>

text \<open>\<open>__init__\<close>\<close>

definition init :: "string \<Rightarrow> int \<Rightarrow> client" where
  "init h p = \<lparr>host = h, port = p, url = h @ '':'' @ str_int p\<rparr>"


text \<open>
  \<open>setup\<close> is nine blocks in a row. Each block posts one component and either returns
  the response text from \<open>setup\<close> (\<open>Inl\<close>) or goes on with the \<open>success\<close> dict
  extended (\<open>Inr\<close>). \<open>post_component\<close> is the part the blocks share: the request, the
  test of the response text and the update of \<open>success\<close>.
\<close>

type_synonym block = "(string \<rightharpoonup> string) \<Rightarrow> world \<Rightarrow> (string + (string \<rightharpoonup> string)) \<times> world"

definition post_component ::
  "'v env \<Rightarrow> string \<Rightarrow> (string \<rightharpoonup> qval) \<Rightarrow> body option \<Rightarrow> string \<Rightarrow> block" where
  "post_component env u ps dat key success s =
     (let (response, s1) = requests_post env u (Some ps) dat s
      in if \<not> startswith (resp_text response) ''OK''
         then (Inl (resp_text response), s1)
         else (Inr (success(key \<mapsto> resp_text response)), s1))"

definition skip :: block where
  "skip success s = (Inr success, s)"

definition then_block :: "block \<Rightarrow> block \<Rightarrow> block" where
  "then_block b1 b2 success s =
     (case b1 success s of
        (Inl t, s1) \<Rightarrow> (Inl t, s1)
      | (Inr success1, s1) \<Rightarrow> b2 success1 s1)"

definition setup_epw :: "'v env \<Rightarrow> string \<Rightarrow> string \<Rightarrow> string option \<Rightarrow> block" where
  "setup_epw env u name epw =
     (case epw of
        None \<Rightarrow> skip
      | Some path \<Rightarrow>
          post_component env u [''name'' \<mapsto> QStr name, ''type'' \<mapsto> QStr ''epw'']
            (Some (BText (replace_crlf (read_text env path)))) ''epw'')"

definition setup_weather_data :: "'v env \<Rightarrow> string \<Rightarrow> string \<Rightarrow> string option \<Rightarrow> block" where
  "setup_weather_data env u name weather_data =
     (case weather_data of
        None \<Rightarrow> skip
      | Some path \<Rightarrow>
          post_component env u [''name'' \<mapsto> QStr name, ''type'' \<mapsto> QStr ''weather_data'']
            (Some (BBytes (dumps env (read_csv env path)))) ''weather'')"

definition setup_idf :: "'v env \<Rightarrow> string \<Rightarrow> string \<Rightarrow> 'v option \<Rightarrow> block" where
  "setup_idf env u name idf =
     (case idf of
        None \<Rightarrow> skip
      | Some i \<Rightarrow>
          post_component env u [''name'' \<mapsto> QStr name, ''type'' \<mapsto> QStr ''idf'']
            (Some (BText (idfstr env i))) ''idf'')"

definition setup_model :: "'v env \<Rightarrow> string \<Rightarrow> string \<Rightarrow> 'v option \<Rightarrow> block" where
  "setup_model env u name model =
     (case model of
        None \<Rightarrow> skip
      | Some m \<Rightarrow>
          post_component env u [''name'' \<mapsto> QStr name, ''type'' \<mapsto> QStr ''model'']
            (Some (BBytes (dumps env m))) ''model'')"

definition setup_parameters :: "'v env \<Rightarrow> string \<Rightarrow> string \<Rightarrow> 'v option \<Rightarrow> block" where
  "setup_parameters env u name parameters =
     (case parameters of
        None \<Rightarrow> skip
      | Some ps \<Rightarrow>
          post_component env u [''name'' \<mapsto> QStr name, ''type'' \<mapsto> QStr ''parameters'']
            (Some (BBytes (dumps env ps))) ''parameters'')"

definition setup_lca_calculation :: "'v env \<Rightarrow> string \<Rightarrow> string \<Rightarrow> 'v option \<Rightarrow> block" where
  "setup_lca_calculation env u name lca_calculation =
     (case lca_calculation of
        None \<Rightarrow> skip
      | Some c \<Rightarrow>
          post_component env u [''name'' \<mapsto> QStr name, ''type'' \<mapsto> QStr ''lca_calculation'']
            (Some (BBytes (dumps env c))) ''LCA Calculation'')"

definition setup_cost_calculation :: "'v env \<Rightarrow> string \<Rightarrow> string \<Rightarrow> 'v option \<Rightarrow> block" where
  "setup_cost_calculation env u name cost_calculation =
     (case cost_calculation of
        None \<Rightarrow> skip
      | Some c \<Rightarrow>
          post_component env u [''name'' \<mapsto> QStr name, ''type'' \<mapsto> QStr ''cost_calculation'']
            (Some (BBytes (dumps env c))) ''Cost Calculation'')"

definition setup_database :: "'v env \<Rightarrow> string \<Rightarrow> string \<Rightarrow> bool \<Rightarrow> block" where
  "setup_database env u name init_db =
     (if init_db
      then post_component env u [''name'' \<mapsto> QStr name, ''type'' \<mapsto> QStr ''database'']
             None ''Database''
      else skip)"

definition energy_message :: string where
  "energy_message =
     ''Energy calculation type can be one of the following: simulation / steady_state''"

text \<open>\<open>if energy_calculation:\<close> is false for \<open>None\<close> and for the empty string.\<close>

definition setup_energy_calculation ::
  "'v env \<Rightarrow> string \<Rightarrow> string \<Rightarrow> string option \<Rightarrow> block" where
  "setup_energy_calculation env u name energy_calculation =
     (case energy_calculation of
        None \<Rightarrow> skip
      | Some mode \<Rightarrow>
          if mode = [] then skip
          else if mode \<notin> set [''simulation'', ''steady_state'']
          then (\<lambda>success s. (Inl energy_message, s))
          else post_component env u
                 [''name'' \<mapsto> QStr name, ''type'' \<mapsto> QStr ''energy_calculation'',
                  ''mode'' \<mapsto> QStr mode]
                 None ''Energy Calculation'')"

text \<open>\<open>setup\<close> (the name is an Isabelle keyword, hence the suffix).\<close>

definition setup_py ::
  "'v env \<Rightarrow> string \<Rightarrow> string option \<Rightarrow> string option \<Rightarrow> 'v option \<Rightarrow> 'v option \<Rightarrow> 'v option
     \<Rightarrow> 'v option \<Rightarrow> 'v option \<Rightarrow> string option \<Rightarrow> bool \<Rightarrow> world
     \<Rightarrow> (exc + 'v pyval) \<times> world" where
  "setup_py env name epw weather_data idf model parameters lca_calculation cost_calculation
     energy_calculation init_db s =
     (let u = url (self s) @ ''/setup''
      in case
           (then_block (setup_epw env u name epw)
           (then_block (setup_weather_data env u name weather_data)
           (then_block (setup_idf env u name idf)
           (then_block (setup_model env u name model)
           (then_block (setup_parameters env u name parameters)
           (then_block (setup_lca_calculation env u name lca_calculation)
           (then_block (setup_cost_calculation env u name cost_calculation)
           (then_block (setup_database env u name init_db)
                       (setup_energy_calculation env u name energy_calculation)))))))))
             Map.empty s
         of
           (Inl t, s1) \<Rightarrow> (Inr (Str t), s1)
         | (Inr success, s1) \<Rightarrow> (Inr (Str (CHR 0x0A # pformat env success)), s1))"

definition calculate ::
  "'v env \<Rightarrow> string \<Rightarrow> (string \<rightharpoonup> qval) \<Rightarrow> world \<Rightarrow> (exc + 'v pyval) \<times> world" where
  "calculate env name parameters s =
     (let payload = [''name'' \<mapsto> QStr name] ++ parameters;
          (response, s1) = requests_get env (url (self s) @ ''/calculate'') (Some payload) s;
          (decoded, s2) = response_json env response s1
      in (try_except (map_sum id Val decoded) ValueError (Str (resp_text response)), s2))"

definition status :: "'v env \<Rightarrow> world \<Rightarrow> (exc + 'v pyval) \<times> world" where
  "status env s =
     (let (response, s1) = requests_get env (url (self s) @ ''/status'') None s;
          (decoded, s2) = response_json env response s1
      in (try_except (map_sum id Val decoded) ValueError (Str (resp_text response)), s2))"

definition results :: "'v env \<Rightarrow> string \<Rightarrow> world \<Rightarrow> (exc + 'v pyval) \<times> world" where
  "results env name s =
     (let (response, s1) =
            requests_get env (url (self s) @ ''/results'') (Some [''name'' \<mapsto> QStr name]) s;
          (df, s2) = pd_read_json env response s1
      in (try_except (map_sum id Val df) JSONDecodeError (Str (resp_text response)), s2))"

text \<open>
  \<open>cleanup\<close> asks on the console before it sends anything; the \<open>else\<close> branch falls off
  the end of the function, which returns \<open>None\<close>.
\<close>

definition cleanup ::
  "'v env \<Rightarrow> string \<Rightarrow> string option \<Rightarrow> world \<Rightarrow> (exc + 'v pyval) \<times> world" where
  "cleanup env name target s =
     (case input_line s of
        (Inl e, s1) \<Rightarrow> (Inl e, s1)
      | (Inr answer, s1) \<Rightarrow>
          if answer = ''y''
          then (let (response, s2) =
                      requests_get env (url (self s) @ ''/cleanup'')
                        (Some [''name'' \<mapsto> QStr name,
                               ''target'' \<mapsto> (case target of None \<Rightarrow> QNone | Some t \<Rightarrow> QStr t)])
                        s1
                in (Inr (Str (resp_text response)), s2))
          else (Inr PyNone, s1))"

definition reinstate ::
  "'v env \<Rightarrow> string \<Rightarrow> string \<Rightarrow> world \<Rightarrow> (exc + 'v pyval) \<times> world" where
  "reinstate env name calc_id s =
     (let (response, s1) =
            requests_get env (url (self s) @ ''/reinstate'')
              (Some [''name'' \<mapsto> QStr name, ''id'' \<mapsto> QStr calc_id]) s;
          (decoded, s2) = response_json env response s1
      in (try_except (map_sum id Val decoded) JSONDecodeError (Str (resp_text response)), s2))"

definition instate ::
  "'v env \<Rightarrow> string \<Rightarrow> (string \<rightharpoonup> qval) \<Rightarrow> 'v option \<Rightarrow> world
     \<Rightarrow> (exc + 'v pyval) \<times> world" where
  "instate env name parameters options s =
     (let payload = [''name'' \<mapsto> QStr name] ++ parameters;
          (response, s1) =
            (case options of
               Some opts \<Rightarrow>
                 requests_post env (url (self s) @ ''/instate'') (Some payload)
                   (Some (BText (json_dumps env opts))) s
             | None \<Rightarrow> requests_get env (url (self s) @ ''/instate'') (Some payload) s);
          (decoded, s2) = response_json env response s1
      in (try_except (map_sum id Val decoded) JSONDecodeError (Str (resp_text response)), s2))"

definition get_model :: "'v env \<Rightarrow> string \<Rightarrow> world \<Rightarrow> (exc + 'v pyval) \<times> world" where
  "get_model env name s =
     (let (response, s1) =
            requests_get env (url (self s) @ ''/model'') (Some [''name'' \<mapsto> QStr name]) s;
          (model, s2) = dill_loads env response s1
      in (try_except (map_sum id Val model) UnpicklingError (Str (resp_text response)), s2))"

definition get_params :: "'v env \<Rightarrow> string \<Rightarrow> world \<Rightarrow> (exc + 'v pyval) \<times> world" where
  "get_params env name s =
     (let (response, s1) =
            requests_get env (url (self s) @ ''/parameters'') (Some [''name'' \<mapsto> QStr name]) s;
          (decoded, s2) = response_json env response s1
      in (try_except (map_sum id Val decoded) JSONDecodeError (Str (resp_text response)), s2))"

definition get_full_params :: "'v env \<Rightarrow> string \<Rightarrow> world \<Rightarrow> (exc + 'v pyval) \<times> world" where
  "get_full_params env name s =
     (let (response, s1) =
            requests_get env (url (self s) @ ''/parameters/full'')
              (Some [''name'' \<mapsto> QStr name]) s;
          (param_dict, s2) = dill_loads env response s1;
          params = (case param_dict of
                      Inl e \<Rightarrow> Inl e
                    | Inr d \<Rightarrow> map_sum id Vals (dict_values env d))
      in (try_except params UnpicklingError (Str (resp_text response)), s2))"

definition get_lca :: "'v env \<Rightarrow> string \<Rightarrow> world \<Rightarrow> (exc + 'v pyval) \<times> world" where
  "get_lca env name s =
     (let (response, s1) =
            requests_get env (url (self s) @ ''/lca'') (Some [''name'' \<mapsto> QStr name]) s;
          (calc, s2) = dill_loads env response s1
      in (try_except (map_sum id Val calc) UnpicklingError (Str (resp_text response)), s2))"

definition get_cost :: "'v env \<Rightarrow> string \<Rightarrow> world \<Rightarrow> (exc + 'v pyval) \<times> world" where
  "get_cost env name s =
     (let (response, s1) =
            requests_get env (url (self s) @ ''/cost'') (Some [''name'' \<mapsto> QStr name]) s;
          (calc, s2) = dill_loads env response s1
      in (try_except (map_sum id Val calc) UnpicklingError (Str (resp_text response)), s2))"

text \<open>
  The defaults \<open>typ='zone'\<close> and \<open>period='runperiod'\<close> belong to the call site; the
  default of \<open>variables\<close> is filled in by the body.
\<close>

definition get_energy ::
  "'v env \<Rightarrow> string \<Rightarrow> string option \<Rightarrow> string list option \<Rightarrow> string \<Rightarrow> string \<Rightarrow> world
     \<Rightarrow> (exc + 'v pyval) \<times> world" where
  "get_energy env name calc_id variables typ period s =
     (let vars = (case variables of
                    None \<Rightarrow> [''heating'', ''cooling'', ''lights'']
                  | Some vs \<Rightarrow> vs);
          (response, s1) =
            requests_get env (url (self s) @ ''/energy'')
              (Some [''name'' \<mapsto> QStr name,
                     ''id'' \<mapsto> (case calc_id of None \<Rightarrow> QNone | Some c \<Rightarrow> QStr c),
                     ''variables'' \<mapsto> QList vars,
                     ''type'' \<mapsto> QStr typ,
                     ''period'' \<mapsto> QStr period]) s;
          (df, s2) = pd_read_json env response s1
      in (try_except (map_sum id Val df) JSONDecodeError (Str (resp_text response)), s2))"

definition get_energy_detailed ::
  "'v env \<Rightarrow> string \<Rightarrow> string \<Rightarrow> string \<Rightarrow> string \<Rightarrow> string \<Rightarrow> world
     \<Rightarrow> (exc + 'v pyval) \<times> world" where
  "get_energy_detailed env name calc_id variable typ period s =
     (let (response, s1) =
            requests_get env (url (self s) @ ''/energy/detailed'')
              (Some [''name'' \<mapsto> QStr name,
                     ''id'' \<mapsto> QStr calc_id,
                     ''variable'' \<mapsto> QStr variable,
                     ''type'' \<mapsto> QStr typ,
                     ''period'' \<mapsto> QStr period]) s;
          (df, s2) = pd_read_json env response s1
      in (try_except (map_sum id Val df) JSONDecodeError (Str (resp_text response)), s2))"


subsection \<open>The public methods as one interface\<close>

datatype py_method =
    Setup | Calculate | Status | Results | Cleanup | Reinstate | Instate
  | Get_model | Get_params | Get_full_params | Get_lca | Get_cost | Get_energy
  | Get_energy_detailed

text \<open>A call of a public method with its arguments, in the order of the signature.\<close>

datatype 'v call =
    CallSetup string "string option" "string option" "'v option" "'v option" "'v option"
      "'v option" "'v option" "string option" bool
  | CallCalculate string "string \<rightharpoonup> qval"
  | CallStatus
  | CallResults string
  | CallCleanup string "string option"
  | CallReinstate string string
  | CallInstate string "string \<rightharpoonup> qval" "'v option"
  | CallGet_model string
  | CallGet_params string
  | CallGet_full_params string
  | CallGet_lca string
  | CallGet_cost string
  | CallGet_energy string "string option" "string list option" string string
  | CallGet_energy_detailed string string string string string

fun method_of :: "'v call \<Rightarrow> py_method" where
  "method_of (CallSetup _ _ _ _ _ _ _ _ _ _) = Setup"
| "method_of (CallCalculate _ _) = Calculate"
| "method_of CallStatus = Status"
| "method_of (CallResults _) = Results"
| "method_of (CallCleanup _ _) = Cleanup"
| "method_of (CallReinstate _ _) = Reinstate"
| "method_of (CallInstate _ _ _) = Instate"
| "method_of (CallGet_model _) = Get_model"
| "method_of (CallGet_params _) = Get_params"
| "method_of (CallGet_full_params _) = Get_full_params"
| "method_of (CallGet_lca _) = Get_lca"
| "method_of (CallGet_cost _) = Get_cost"
| "method_of (CallGet_energy _ _ _ _ _) = Get_energy"
| "method_of (CallGet_energy_detailed _ _ _ _ _) = Get_energy_detailed"

fun invoke :: "'v env \<Rightarrow> 'v call \<Rightarrow> world \<Rightarrow> (exc + 'v pyval) \<times> world" where
  "invoke env (CallSetup name epw weather_data idf model parameters lca_calculation
       cost_calculation energy_calculation init_db) s =
     setup_py env name epw weather_data idf model parameters lca_calculation
       cost_calculation energy_calculation init_db s"
| "invoke env (CallCalculate name parameters) s = calculate env name parameters s"
| "invoke env CallStatus s = status env s"
| "invoke env (CallResults name) s = results env name s"
| "invoke env (CallCleanup name target) s = cleanup env name target s"
| "invoke env (CallReinstate name calc_id) s = reinstate env name calc_id s"
| "invoke env (CallInstate name parameters options) s = instate env name parameters options s"
| "invoke env (CallGet_model name) s = get_model env name s"
| "invoke env (CallGet_params name) s = get_params env name s"
| "invoke env (CallGet_full_params name) s = get_full_params env name s"
| "invoke env (CallGet_lca name) s = get_lca env name s"
| "invoke env (CallGet_cost name) s = get_cost env name s"
| "invoke env (CallGet_energy name calc_id variables typ period) s =
     get_energy env name calc_id variables typ period s"
| "invoke env (CallGet_energy_detailed name calc_id variable typ period) s =
     get_energy_detailed env name calc_id variable typ period s"

text \<open>The path each method appends to \<open>self.url\<close>.\<close>

fun endpoint :: "py_method \<Rightarrow> string" where
  "endpoint Setup = ''/setup''"
| "endpoint Calculate = ''/calculate''"
| "endpoint Status = ''/status''"
| "endpoint Results = ''/results''"
| "endpoint Cleanup = ''/cleanup''"
| "endpoint Reinstate = ''/reinstate''"
| "endpoint Instate = ''/instate''"
| "endpoint Get_model = ''/model''"
| "endpoint Get_params = ''/parameters''"
| "endpoint Get_full_params = ''/parameters/full''"
| "endpoint Get_lca = ''/lca''"
| "endpoint Get_cost = ''/cost''"
| "endpoint Get_energy = ''/energy''"
| "endpoint Get_energy_detailed = ''/energy/detailed''"

text \<open>The events a call appends to the trace, and the requests and responses among them.\<close>

definition issued :: "'v env \<Rightarrow> 'v call \<Rightarrow> world \<Rightarrow> event list" where
  "issued env c s = drop (length (trace s)) (trace (snd (invoke env c s)))"

fun http_requests :: "event list \<Rightarrow> request list" where
  "http_requests [] = []"
| "http_requests (Http rq rs # evs) = rq # http_requests evs"
| "http_requests (Decode k r # evs) = http_requests evs"

fun http_responses :: "event list \<Rightarrow> response list" where
  "http_responses [] = []"
| "http_responses (Http rq rs # evs) = rs # http_responses evs"
| "http_responses (Decode k r # evs) = http_responses evs"

fun decodings :: "event list \<Rightarrow> (decoding \<times> response) list" where
  "decodings [] = []"
| "decodings (Http rq rs # evs) = decodings evs"
| "decodings (Decode k r # evs) = (k, r) # decodings evs"

subsection \<open>What each method does with the response\<close>

text \<open>
  The class named by the \<open>except\<close> clause of each method; \<open>setup\<close> and \<open>cleanup\<close> have no
  \<open>try\<close> statement.
\<close>

fun except_class :: "py_method \<Rightarrow> exc option" where
  "except_class Setup = None"
| "except_class Calculate = Some ValueError"
| "except_class Status = Some ValueError"
| "except_class Results = Some JSONDecodeError"
| "except_class Cleanup = None"
| "except_class Reinstate = Some JSONDecodeError"
| "except_class Instate = Some JSONDecodeError"
| "except_class Get_model = Some UnpicklingError"
| "except_class Get_params = Some JSONDecodeError"
| "except_class Get_full_params = Some UnpicklingError"
| "except_class Get_lca = Some UnpicklingError"
| "except_class Get_cost = Some UnpicklingError"
| "except_class Get_energy = Some JSONDecodeError"
| "except_class Get_energy_detailed = Some JSONDecodeError"

text \<open>The decoding each method attempts; \<open>setup\<close> and \<open>cleanup\<close> only read \<open>response.text\<close>.\<close>

fun attempted :: "py_method \<Rightarrow> decoding option" where
  "attempted Setup = None"
| "attempted Calculate = Some JSON"
| "attempted Status = Some JSON"
| "attempted Results = Some Tabular"
| "attempted Cleanup = None"
| "attempted Reinstate = Some JSON"
| "attempted Instate = Some JSON"
| "attempted Get_model = Some Pickled"
| "attempted Get_params = Some JSON"
| "attempted Get_full_params = Some Pickled"
| "attempted Get_lca = Some Pickled"
| "attempted Get_cost = Some Pickled"
| "attempted Get_energy = Some Tabular"
| "attempted Get_energy_detailed = Some Tabular"

text \<open>
  The three kinds of decoding as library expressions: \<open>response.json()\<close>,
  \<open>pd.read_json\<close> of the JSON payload, and \<open>dill.loads\<close> of the raw content.
\<close>

fun decode :: "'v env \<Rightarrow> decoding \<Rightarrow> response \<Rightarrow> exc + 'v" where
  "decode env JSON r = json env r"
| "decode env Tabular r = (case json env r of Inl e \<Rightarrow> Inl e | Inr j \<Rightarrow> read_json env j)"
| "decode env Pickled r = loads env (resp_content r)"

text \<open>The expression inside the \<open>try\<close> of each method, evaluated on the response.\<close>

fun try_body :: "'v env \<Rightarrow> py_method \<Rightarrow> response \<Rightarrow> exc + 'v pyval" where
  "try_body env Setup r = Inr (Str (resp_text r))"
| "try_body env Calculate r = map_sum id Val (json env r)"
| "try_body env Status r = map_sum id Val (json env r)"
| "try_body env Results r =
     map_sum id Val (case json env r of Inl e \<Rightarrow> Inl e | Inr j \<Rightarrow> read_json env j)"
| "try_body env Cleanup r = Inr (Str (resp_text r))"
| "try_body env Reinstate r = map_sum id Val (json env r)"
| "try_body env Instate r = map_sum id Val (json env r)"
| "try_body env Get_model r = map_sum id Val (loads env (resp_content r))"
| "try_body env Get_params r = map_sum id Val (json env r)"
| "try_body env Get_full_params r =
     (case loads env (resp_content r) of
       Inl e \<Rightarrow> Inl e
     | Inr param_dict \<Rightarrow> map_sum id Vals (dict_values env param_dict))"
| "try_body env Get_lca r = map_sum id Val (loads env (resp_content r))"
| "try_body env Get_cost r = map_sum id Val (loads env (resp_content r))"
| "try_body env Get_energy r =
     map_sum id Val (case json env r of Inl e \<Rightarrow> Inl e | Inr j \<Rightarrow> read_json env j)"
| "try_body env Get_energy_detailed r =
     map_sum id Val (case json env r of Inl e \<Rightarrow> Inl e | Inr j \<Rightarrow> read_json env j)"

text \<open>Calls one after the other, each on the world the one before left.\<close>

fun call_seq :: "'v env \<Rightarrow> 'v call list \<Rightarrow> world \<Rightarrow> world" where
  "call_seq env [] s = s"
| "call_seq env (c # cs) s = call_seq env cs (snd (invoke env c s))"

subsection \<open>setup, as the specification words it\<close>

text \<open>
  A component of a setup: whether it is supplied, the \<open>params\<close> of its request, the
  \<open>data\<close> of its request and the key of its message in \<open>success\<close>.
\<close>

type_synonym component = "bool \<times> (string \<rightharpoonup> qval) \<times> body option \<times> string"

text \<open>
  The components in the fixed order. The energy calculation counts as supplied when the
  string is one of the two modes.
\<close>

definition components ::
  "'v env \<Rightarrow> string \<Rightarrow> string option \<Rightarrow> string option \<Rightarrow> 'v option \<Rightarrow> 'v option \<Rightarrow> 'v option
     \<Rightarrow> 'v option \<Rightarrow> 'v option \<Rightarrow> string option \<Rightarrow> bool \<Rightarrow> component list" where
  "components env name epw weather_data idf model parameters lca_calculation cost_calculation
     energy_calculation init_db =
     [(epw \<noteq> None, [''name'' \<mapsto> QStr name, ''type'' \<mapsto> QStr ''epw''],
         map_option (\<lambda>path. BText (replace_crlf (read_text env path))) epw, ''epw''),
      (weather_data \<noteq> None, [''name'' \<mapsto> QStr name, ''type'' \<mapsto> QStr ''weather_data''],
         map_option (\<lambda>path. BBytes (dumps env (read_csv env path))) weather_data, ''weather''),
      (idf \<noteq> None, [''name'' \<mapsto> QStr name, ''type'' \<mapsto> QStr ''idf''],
         map_option (\<lambda>i. BText (idfstr env i)) idf, ''idf''),
      (model \<noteq> None, [''name'' \<mapsto> QStr name, ''type'' \<mapsto> QStr ''model''],
         map_option (\<lambda>m. BBytes (dumps env m)) model, ''model''),
      (parameters \<noteq> None, [''name'' \<mapsto> QStr name, ''type'' \<mapsto> QStr ''parameters''],
         map_option (\<lambda>ps. BBytes (dumps env ps)) parameters, ''parameters''),
      (lca_calculation \<noteq> None,
         [''name'' \<mapsto> QStr name, ''type'' \<mapsto> QStr ''lca_calculation''],
         map_option (\<lambda>c. BBytes (dumps env c)) lca_calculation, ''LCA Calculation''),
      (cost_calculation \<noteq> None,
         [''name'' \<mapsto> QStr name, ''type'' \<mapsto> QStr ''cost_calculation''],
         map_option (\<lambda>c. BBytes (dumps env c)) cost_calculation, ''Cost Calculation''),
      (init_db, [''name'' \<mapsto> QStr name, ''type'' \<mapsto> QStr ''database''], None, ''Database''),
      (energy_calculation = Some ''simulation'' \<or> energy_calculation = Some ''steady_state'',
         [''name'' \<mapsto> QStr name, ''type'' \<mapsto> QStr ''energy_calculation'',
          ''mode'' \<mapsto> QStr (case energy_calculation of None \<Rightarrow> [] | Some mode \<Rightarrow> mode)],
         None, ''Energy Calculation'')]"

text \<open>The request of a component, to the URL \<open>u\<close>.\<close>

definition component_request :: "string \<Rightarrow> component \<Rightarrow> request" where
  "component_request u c =
     \<lparr>r_verb = POST, r_url = u, r_params = Some (fst (snd c)), r_data = fst (snd (snd c))\<rparr>"

text \<open>The requests \<open>setup\<close> plans: those of the supplied components, in the fixed order.\<close>

definition planned ::
  "'v env \<Rightarrow> string \<Rightarrow> string option \<Rightarrow> string option \<Rightarrow> 'v option \<Rightarrow> 'v option
     \<Rightarrow> 'v option \<Rightarrow> 'v option \<Rightarrow> 'v option \<Rightarrow> string option \<Rightarrow> bool \<Rightarrow> component list" where
  "planned env name epw weather_data idf model parameters lca_calculation cost_calculation
     energy_calculation init_db =
     filter fst (components env name epw weather_data idf model parameters lca_calculation
       cost_calculation energy_calculation init_db)"

text \<open>
  The exchanges with the server when the planned requests are sent one by one, each
  answered on the history so far, up to and including the first response whose text does
  not start with \<open>OK\<close>.
\<close>

fun exchanges :: "'v env \<Rightarrow> string \<Rightarrow> component list \<Rightarrow> event list \<Rightarrow> event list" where
  "exchanges env u [] history = []"
| "exchanges env u (c # cs) history =
     (let rq = component_request u c; rs = respond env history rq
      in Http rq rs #
           (if startswith (resp_text rs) ''OK''
            then exchanges env u cs (history @ [Http rq rs])
            else []))"

text \<open>The \<open>success\<close> dict after the given components got the given responses.\<close>

fun success_dict :: "component list \<Rightarrow> response list \<Rightarrow> (string \<rightharpoonup> string)" where
  "success_dict (c # cs) (rs # rss) = [snd (snd (snd c)) \<mapsto> resp_text rs] ++ success_dict cs rss"
| "success_dict cs rss = Map.empty"

text \<open>The energy calculation string that \<open>setup\<close> rejects: not empty and not a mode.\<close>

definition rejected_mode :: "string option \<Rightarrow> bool" where
  "rejected_mode energy_calculation =
     (case energy_calculation of
        None \<Rightarrow> False
      | Some mode \<Rightarrow> mode \<noteq> [] \<and> mode \<noteq> ''simulation'' \<and> mode \<noteq> ''steady_state'')"

subsection \<open>Running a plan of components\<close>

text \<open>
  The blocks of \<open>setup\<close>, for a list of components that are all supplied; the block that
  returns the message about the energy calculation; and what \<open>setup\<close> is left with after
  the responses \<open>rss\<close>: the text of the last one if it does not start with \<open>OK\<close>, the
  \<open>success\<close> dict otherwise.
\<close>

fun run_plan :: "'v env \<Rightarrow> string \<Rightarrow> component list \<Rightarrow> block" where
  "run_plan env u [] = skip"
| "run_plan env u (c # cs) =
     then_block (post_component env u (fst (snd c)) (fst (snd (snd c))) (snd (snd (snd c))))
       (run_plan env u cs)"

definition outcome :: "(string \<rightharpoonup> string) \<Rightarrow> component list \<Rightarrow> response list \<Rightarrow> string + (string \<rightharpoonup> string)" where
  "outcome success cs rss =
     (if rss \<noteq> [] \<and> \<not> startswith (resp_text (last rss)) ''OK''
      then Inl (resp_text (last rss))
      else Inr (success ++ success_dict cs rss))"

definition reject :: block where
  "reject success s = (Inl energy_message, s)"

definition component_type :: "component \<Rightarrow> qval option" where
  "component_type c = fst (snd c) ''type''"

subsection \<open>A concrete environment\<close>

text \<open>
  A small server and small decoders, to run the methods on. The server answers a request
  for the setup \<open>ghost\<close> with an empty body and one for the setup \<open>locked\<close> with an error
  text, and everything else with a text that starts with \<open>OK\<close>. The JSON decoder accepts
  a text that opens an object; the unpickler raises \<open>EOFError\<close> on empty input, as
  \<open>pickle\<close> does, and \<open>UnpicklingError\<close> on input that does not open with the protocol
  byte.
\<close>

definition demo_respond :: "event list \<Rightarrow> request \<Rightarrow> response" where
  "demo_respond history rq =
     (case r_params rq of
        None \<Rightarrow> \<lparr>resp_text = ''{}'', resp_content = ''{}''\<rparr>
      | Some ps \<Rightarrow>
          if ps ''name'' = Some (QStr ''ghost'')
          then \<lparr>resp_text = [], resp_content = []\<rparr>
          else if ps ''name'' = Some (QStr ''locked'')
          then \<lparr>resp_text = ''ERROR: locked'', resp_content = ''ERROR: locked''\<rparr>
          else \<lparr>resp_text = ''OK: done'', resp_content = ''OK: done''\<rparr>)"

definition demo_env :: "string env" where
  "demo_env =
     \<lparr>respond = demo_respond,
      json = (\<lambda>r. if take 1 (resp_text r) = ''{'' then Inr (resp_text r)
                   else Inl JSONDecodeError),
      read_json = (\<lambda>j. Inr j),
      loads = (\<lambda>c. if c = [] then Inl EOFError
                    else if hd c = CHR 0x80 then Inr (tl c) else Inl UnpicklingError),
      dict_values = (\<lambda>d. Inr [d]),
      dumps = (\<lambda>v. CHR 0x80 # v),
      json_dumps = (\<lambda>v. v),
      idfstr = (\<lambda>v. v),
      read_text = (\<lambda>path. ''LOCATION,Budapest''),
      read_csv = (\<lambda>path. path),
      pformat = (\<lambda>d. case d ''Database'' of None \<Rightarrow> ''{}'' | Some t \<Rightarrow> ''{Database: '' @ t @ ''}'')\<rparr>"

definition demo_world :: world where
  "demo_world = \<lparr>self = init ''http://localhost'' 5000, trace = [], stdin = [''y'', ''n'']\<rparr>"

section \<open>Properties\<close>

subsection \<open>Strings and the client object\<close>

lemma str_int_5000: "str_int 5000 = ''5000''"
  by (simp add: str_int_def str_nat.simps digit_def)

lemma demo_url: "url (self demo_world) = ''http://localhost:5000''"
  by (simp add: demo_world_def init_def str_int_5000)

subsection \<open>setup runs its plan\<close>

lemma then_block_skip_left: "then_block skip b = b"
  by (rule ext, rule ext) (simp add: then_block_def skip_def)

lemma then_block_skip_right: "then_block b skip = b"
  by (rule ext, rule ext) (simp add: then_block_def skip_def split: prod.splits sum.splits)

lemma then_block_assoc: "then_block (then_block a b) c = then_block a (then_block b c)"
  by (rule ext, rule ext) (simp add: then_block_def split: prod.splits sum.splits)

lemma run_plan_append:
  "run_plan env u (xs @ ys) = then_block (run_plan env u xs) (run_plan env u ys)"
  by (induction xs) (simp_all add: then_block_skip_left then_block_assoc)

lemma success_step: "success ++ ([k \<mapsto> v] ++ r) = success(k \<mapsto> v) ++ r"
  by (simp add: map_add_assoc [symmetric])

lemma outcome_Cons:
  "startswith (resp_text rs) ''OK'' \<Longrightarrow>
   outcome success (c # cs) (rs # rss) =
     outcome (success(snd (snd (snd c)) \<mapsto> resp_text rs)) cs rss"
  by (simp add: outcome_def success_step)

lemma run_plan_exchanges:
  "run_plan env u cs success s =
     (outcome success cs (http_responses (exchanges env u cs (trace s))),
      s\<lparr>trace := trace s @ exchanges env u cs (trace s)\<rparr>)"
proof (induction cs arbitrary: success s)
  case Nil
  then show ?case by (simp add: skip_def outcome_def)
next
  case (Cons c cs)
  define rq where "rq = component_request u c"
  define rs where "rs = respond env (trace s) rq"
  define s1 where "s1 = s\<lparr>trace := trace s @ [Http rq rs]\<rparr>"
  have post: "post_component env u (fst (snd c)) (fst (snd (snd c))) (snd (snd (snd c))) success s =
      (if \<not> startswith (resp_text rs) ''OK'' then (Inl (resp_text rs), s1)
       else (Inr (success(snd (snd (snd c)) \<mapsto> resp_text rs)), s1))"
    by (simp add: post_component_def requests_post_def requests_call_def Let_def
        component_request_def rq_def rs_def s1_def)
  show ?case
  proof (cases "startswith (resp_text rs) ''OK''")
    case False
    have "exchanges env u (c # cs) (trace s) = [Http rq rs]"
      using False by (simp add: Let_def rq_def rs_def)
    then show ?thesis
      using False post by (simp add: then_block_def outcome_def s1_def)
  next
    case True
    have ex: "exchanges env u (c # cs) (trace s) = Http rq rs # exchanges env u cs (trace s1)"
      using True by (simp add: Let_def rq_def rs_def s1_def)
    have "run_plan env u (c # cs) success s =
        run_plan env u cs (success(snd (snd (snd c)) \<mapsto> resp_text rs)) s1"
      using True post by (simp add: then_block_def)
    also have "\<dots> = (outcome (success(snd (snd (snd c)) \<mapsto> resp_text rs)) cs
          (http_responses (exchanges env u cs (trace s1))),
        s1\<lparr>trace := trace s1 @ exchanges env u cs (trace s1)\<rparr>)"
      by (rule Cons)
    finally show ?thesis
      using True by (simp add: ex outcome_Cons s1_def del: exchanges.simps)
  qed
qed


lemma setup_epw_plan:
  "setup_epw env u name epw =
     run_plan env u (filter fst
       [(epw \<noteq> None, [''name'' \<mapsto> QStr name, ''type'' \<mapsto> QStr ''epw''],
         map_option (\<lambda>path. BText (replace_crlf (read_text env path))) epw, ''epw'')])"
  by (cases epw) (simp_all add: setup_epw_def then_block_skip_right)

lemma setup_weather_data_plan:
  "setup_weather_data env u name weather_data =
     run_plan env u (filter fst
       [(weather_data \<noteq> None, [''name'' \<mapsto> QStr name, ''type'' \<mapsto> QStr ''weather_data''],
         map_option (\<lambda>path. BBytes (dumps env (read_csv env path))) weather_data, ''weather'')])"
  by (cases weather_data) (simp_all add: setup_weather_data_def then_block_skip_right)

lemma setup_idf_plan:
  "setup_idf env u name idf =
     run_plan env u (filter fst
       [(idf \<noteq> None, [''name'' \<mapsto> QStr name, ''type'' \<mapsto> QStr ''idf''],
         map_option (\<lambda>i. BText (idfstr env i)) idf, ''idf'')])"
  by (cases idf) (simp_all add: setup_idf_def then_block_skip_right)

lemma setup_model_plan:
  "setup_model env u name model =
     run_plan env u (filter fst
       [(model \<noteq> None, [''name'' \<mapsto> QStr name, ''type'' \<mapsto> QStr ''model''],
         map_option (\<lambda>m. BBytes (dumps env m)) model, ''model'')])"
  by (cases model) (simp_all add: setup_model_def then_block_skip_right)

lemma setup_parameters_plan:
  "setup_parameters env u name parameters =
     run_plan env u (filter fst
       [(parameters \<noteq> None, [''name'' \<mapsto> QStr name, ''type'' \<mapsto> QStr ''parameters''],
         map_option (\<lambda>ps. BBytes (dumps env ps)) parameters, ''parameters'')])"
  by (cases parameters) (simp_all add: setup_parameters_def then_block_skip_right)

lemma setup_lca_calculation_plan:
  "setup_lca_calculation env u name lca_calculation =
     run_plan env u (filter fst
       [(lca_calculation \<noteq> None,
         [''name'' \<mapsto> QStr name, ''type'' \<mapsto> QStr ''lca_calculation''],
         map_option (\<lambda>c. BBytes (dumps env c)) lca_calculation, ''LCA Calculation'')])"
  by (cases lca_calculation) (simp_all add: setup_lca_calculation_def then_block_skip_right)

lemma setup_cost_calculation_plan:
  "setup_cost_calculation env u name cost_calculation =
     run_plan env u (filter fst
       [(cost_calculation \<noteq> None,
         [''name'' \<mapsto> QStr name, ''type'' \<mapsto> QStr ''cost_calculation''],
         map_option (\<lambda>c. BBytes (dumps env c)) cost_calculation, ''Cost Calculation'')])"
  by (cases cost_calculation) (simp_all add: setup_cost_calculation_def then_block_skip_right)

lemma setup_database_plan:
  "setup_database env u name init_db =
     run_plan env u (filter fst
       [(init_db, [''name'' \<mapsto> QStr name, ''type'' \<mapsto> QStr ''database''], None, ''Database'')])"
  by (simp add: setup_database_def then_block_skip_right)

lemma setup_energy_calculation_plan:
  "setup_energy_calculation env u name energy_calculation =
     then_block (run_plan env u (filter fst
       [(energy_calculation = Some ''simulation'' \<or> energy_calculation = Some ''steady_state'',
         [''name'' \<mapsto> QStr name, ''type'' \<mapsto> QStr ''energy_calculation'',
          ''mode'' \<mapsto> QStr (case energy_calculation of None \<Rightarrow> [] | Some mode \<Rightarrow> mode)],
         None, ''Energy Calculation'')]))
       (if rejected_mode energy_calculation then reject else skip)"
proof (cases energy_calculation)
  case None
  then show ?thesis
    by (simp add: setup_energy_calculation_def rejected_mode_def then_block_skip_right)
next
  case (Some mode)
  then show ?thesis
    by (auto simp: setup_energy_calculation_def rejected_mode_def then_block_skip_right
        then_block_skip_left reject_def [abs_def])
qed

lemma run_plan_filter_Cons:
  "run_plan env u (filter fst (c # d # cs)) =
     then_block (run_plan env u (filter fst [c])) (run_plan env u (filter fst (d # cs)))"
proof -
  have "filter fst (c # d # cs) = filter fst [c] @ filter fst (d # cs)"
    by simp
  then show ?thesis
    by (simp only: run_plan_append)
qed

lemma setup_chain:
  "then_block (setup_epw env u name epw)
    (then_block (setup_weather_data env u name weather_data)
    (then_block (setup_idf env u name idf)
    (then_block (setup_model env u name model)
    (then_block (setup_parameters env u name parameters)
    (then_block (setup_lca_calculation env u name lca_calculation)
    (then_block (setup_cost_calculation env u name cost_calculation)
    (then_block (setup_database env u name init_db)
                (setup_energy_calculation env u name energy_calculation)))))))) =
   then_block
     (run_plan env u (planned env name epw weather_data idf model parameters lca_calculation
        cost_calculation energy_calculation init_db))
     (if rejected_mode energy_calculation then reject else skip)"
  by (simp only: planned_def components_def run_plan_filter_Cons then_block_assoc
      setup_epw_plan setup_weather_data_plan setup_idf_plan setup_model_plan
      setup_parameters_plan setup_lca_calculation_plan setup_cost_calculation_plan
      setup_database_plan setup_energy_calculation_plan)

lemma setup_py_plan:
  "setup_py env name epw weather_data idf model parameters lca_calculation cost_calculation
     energy_calculation init_db s =
   (let u = url (self s) @ ''/setup'';
        cs = planned env name epw weather_data idf model parameters lca_calculation
               cost_calculation energy_calculation init_db;
        evs = exchanges env u cs (trace s)
    in (Inr (Str (case outcome Map.empty cs (http_responses evs) of
                    Inl t \<Rightarrow> t
                  | Inr success \<Rightarrow>
                      if rejected_mode energy_calculation then energy_message
                      else CHR 0x0A # pformat env success)),
        s\<lparr>trace := trace s @ evs\<rparr>))"
  by (simp only: setup_py_def setup_chain Let_def)
    (simp add: then_block_def run_plan_exchanges reject_def skip_def split: sum.splits)


subsection \<open>The methods with one request\<close>

lemmas single_defs = calculate_def status_def results_def reinstate_def instate_def
  get_model_def get_params_def get_full_params_def get_lca_def get_cost_def get_energy_def
  get_energy_detailed_def requests_get_def requests_post_def requests_call_def response_json_def
  pd_read_json_def dill_loads_def Let_def

lemma single_call_shape:
  assumes "except_class (method_of c) = Some cls"
  shows "\<exists>rq k. snd (invoke env c s) =
                s\<lparr>trace := trace s @ [Http rq (respond env (trace s) rq), Decode k (respond env (trace s) rq)]\<rparr>
           \<and> r_url rq = url (self s) @ endpoint (method_of c)
           \<and> attempted (method_of c) = Some k
           \<and> fst (invoke env c s) =
               try_except (try_body env (method_of c) (respond env (trace s) rq)) cls
                  (Str (resp_text (respond env (trace s) rq)))"
proof (cases c)
  case (CallInstate name parameters options)
  with assms show ?thesis
    by (cases options) (auto simp: single_defs)
qed (use assms in \<open>auto simp: single_defs\<close>)

subsection \<open>The exchanges of a plan\<close>

lemma exchanges_Cons:
  "exchanges env u (c # cs) h =
     Http (component_request u c) (respond env h (component_request u c)) #
       (if startswith (resp_text (respond env h (component_request u c))) ''OK''
        then exchanges env u cs (h @ [Http (component_request u c)
                                       (respond env h (component_request u c))])
        else [])"
  by (simp add: Let_def)

lemma exchanges_requests:
  "http_requests (exchanges env u cs h) =
     take (length (exchanges env u cs h)) (map (component_request u) cs)"
  by (induction cs arbitrary: h) (simp_all add: Let_def)

lemma exchanges_decodings: "decodings (exchanges env u cs h) = []"
  by (induction cs arbitrary: h) (simp_all add: Let_def)

lemma exchanges_responses_length:
  "length (http_responses (exchanges env u cs h)) = length (exchanges env u cs h)"
  by (induction cs arbitrary: h) (simp_all add: Let_def)

lemma exchanges_butlast_ok:
  "rs \<in> set (butlast (http_responses (exchanges env u cs h))) \<Longrightarrow>
   startswith (resp_text rs) ''OK''"
proof (induction cs arbitrary: h)
  case Nil
  then show ?case by simp
next
  case (Cons c cs)
  then show ?case
    by (auto simp: Let_def split: if_splits)
qed

lemma exchanges_complete:
  "\<forall>rs \<in> set (http_responses (exchanges env u cs h)). startswith (resp_text rs) ''OK'' \<Longrightarrow>
   length (exchanges env u cs h) = length cs"
proof (induction cs arbitrary: h)
  case Nil
  then show ?case by simp
next
  case (Cons c cs)
  let ?rq = "component_request u c"
  let ?rs = "respond env h ?rq"
  from Cons.prems have ok: "startswith (resp_text ?rs) ''OK''"
    by (simp only: exchanges_Cons http_responses.simps list.set_intros ball_simps)
  then have eq: "exchanges env u (c # cs) h = Http ?rq ?rs # exchanges env u cs (h @ [Http ?rq ?rs])"
    by (simp only: exchanges_Cons if_True)
  with Cons.prems
  have "\<forall>rs \<in> set (http_responses (exchanges env u cs (h @ [Http ?rq ?rs]))).
          startswith (resp_text rs) ''OK''"
    by (simp del: exchanges.simps)
  then have "length (exchanges env u cs (h @ [Http ?rq ?rs])) = length cs"
    by (rule Cons.IH)
  then show ?case
    by (simp only: eq list.size length_Cons)
qed

lemma exchanges_last_ok:
  assumes "exchanges env u cs h \<noteq> []"
    and "startswith (resp_text (last (http_responses (exchanges env u cs h)))) ''OK''"
    and "rs \<in> set (http_responses (exchanges env u cs h))"
  shows "startswith (resp_text rs) ''OK''"
proof -
  let ?rss = "http_responses (exchanges env u cs h)"
  have "?rss \<noteq> []"
    using assms(1) exchanges_responses_length [of env u cs h] by (metis length_0_conv)
  then have "?rss = butlast ?rss @ [last ?rss]"
    by simp
  then have "rs \<in> set (butlast ?rss) \<or> rs = last ?rss"
    using assms(3) by (metis Un_iff empty_iff insert_iff list.set(1) list.set(2) set_append)
  then show ?thesis
    using assms(2) exchanges_butlast_ok by blast
qed





subsection \<open>The events of a call\<close>

lemma issued_single:
  assumes "except_class (method_of c) = Some cls"
  shows "\<exists>rq k. issued env c s = [Http rq (respond env (trace s) rq), Decode k (respond env (trace s) rq)]
           \<and> r_url rq = url (self s) @ endpoint (method_of c)
           \<and> attempted (method_of c) = Some k
           \<and> self (snd (invoke env c s)) = self s
           \<and> fst (invoke env c s) =
               try_except (try_body env (method_of c) (respond env (trace s) rq)) cls
                  (Str (resp_text (respond env (trace s) rq)))"
proof -
  from single_call_shape [OF assms, of env s]
  obtain rq k where
    "snd (invoke env c s) =
       s\<lparr>trace := trace s @ [Http rq (respond env (trace s) rq), Decode k (respond env (trace s) rq)]\<rparr>"
    "r_url rq = url (self s) @ endpoint (method_of c)"
    "attempted (method_of c) = Some k"
    "fst (invoke env c s) =
       try_except (try_body env (method_of c) (respond env (trace s) rq)) cls
         (Str (resp_text (respond env (trace s) rq)))"
    by blast
  then show ?thesis
    by (simp add: issued_def)
qed

lemma issued_setup:
  "issued env (CallSetup name epw weather_data idf model parameters lca_calculation
      cost_calculation energy_calculation init_db) s =
   exchanges env (url (self s) @ ''/setup'')
     (planned env name epw weather_data idf model parameters lca_calculation
        cost_calculation energy_calculation init_db) (trace s)"
  by (simp add: issued_def setup_py_plan Let_def)

lemma setup_self:
  "self (snd (invoke env (CallSetup name epw weather_data idf model parameters lca_calculation
      cost_calculation energy_calculation init_db) s)) = self s"
  by (simp add: setup_py_plan Let_def)

lemma setup_result:
  "fst (invoke env (CallSetup name epw weather_data idf model parameters lca_calculation
      cost_calculation energy_calculation init_db) s) =
   Inr (Str (case outcome Map.empty
                  (planned env name epw weather_data idf model parameters lca_calculation
                     cost_calculation energy_calculation init_db)
                  (http_responses (issued env (CallSetup name epw weather_data idf model
                     parameters lca_calculation cost_calculation energy_calculation init_db) s))
             of Inl t \<Rightarrow> t
              | Inr success \<Rightarrow>
                  if rejected_mode energy_calculation then energy_message
                  else CHR 0x0A # pformat env success))"
  by (simp add: issued_setup) (simp add: setup_py_plan Let_def)

lemma issued_cleanup:
  "issued env (CallCleanup name target) s =
     (case stdin s of
        [] \<Rightarrow> []
      | answer # rest \<Rightarrow>
          if answer = ''y''
          then [Http \<lparr>r_verb = GET, r_url = url (self s) @ ''/cleanup'',
                       r_params = Some [''name'' \<mapsto> QStr name,
                         ''target'' \<mapsto> (case target of None \<Rightarrow> QNone | Some t \<Rightarrow> QStr t)],
                       r_data = None\<rparr>
                  (respond env (trace s)
                     \<lparr>r_verb = GET, r_url = url (self s) @ ''/cleanup'',
                       r_params = Some [''name'' \<mapsto> QStr name,
                         ''target'' \<mapsto> (case target of None \<Rightarrow> QNone | Some t \<Rightarrow> QStr t)],
                       r_data = None\<rparr>)]
          else [])"
  by (simp add: issued_def cleanup_def input_line_def requests_get_def requests_call_def
      Let_def split: list.splits)

lemma cleanup_self: "self (snd (invoke env (CallCleanup name target) s)) = self s"
  by (simp add: cleanup_def input_line_def requests_get_def requests_call_def
      Let_def split: list.splits)

lemma no_except_class:
  "except_class (method_of c) = None \<Longrightarrow> method_of c = Setup \<or> method_of c = Cleanup"
  by (cases c) simp_all

lemma invoke_self: "self (snd (invoke env c s)) = self s"
proof (cases "except_class (method_of c)")
  case None
  then show ?thesis
    using no_except_class [of c] setup_self cleanup_self
    by (cases c) simp_all
next
  case (Some cls)
  from issued_single [OF this] show ?thesis
    by blast
qed

lemma method_cases:
  "(\<exists>cls. except_class (method_of c) = Some cls) \<or> method_of c = Setup \<or> method_of c = Cleanup"
  by (cases c) simp_all

lemma setup_requests_url:
  "rq \<in> set (http_requests (exchanges env u cs h)) \<Longrightarrow> r_url rq = u \<and> r_verb rq = POST"
  unfolding exchanges_requests
  by (auto dest!: in_set_takeD simp: component_request_def)

lemma issued_urls:
  assumes "rq \<in> set (http_requests (issued env c s))"
  shows "r_url rq = url (self s) @ endpoint (method_of c)"
proof -
  consider cls where "except_class (method_of c) = Some cls"
    | "method_of c = Setup" | "method_of c = Cleanup"
    using method_cases [of c] by blast
  then show ?thesis
  proof cases
    case 1
    from issued_single [OF this, of env s] assms show ?thesis
      by auto
  next
    case 2
    then show ?thesis
      using assms by (cases c) (auto simp: issued_setup dest: setup_requests_url)
  next
    case 3
    then show ?thesis
      using assms by (cases c) (auto simp: issued_cleanup split: list.splits if_splits)
  qed
qed


lemma issued_decodings:
  assumes "method_of c = Setup \<or> method_of c = Cleanup"
  shows "decodings (issued env c s) = []"
  using assms
proof
  assume "method_of c = Setup"
  then show ?thesis
    by (cases c) (simp_all add: issued_setup exchanges_decodings)
next
  assume "method_of c = Cleanup"
  then show ?thesis
    by (cases c) (auto simp: issued_cleanup split: list.splits)
qed

lemma try_body_decode:
  "attempted m = Some k \<Longrightarrow>
   try_body env m r =
     (case decode env k r of
        Inl e \<Rightarrow> Inl e
      | Inr v \<Rightarrow>
          if m = Get_full_params then map_sum id Vals (dict_values env v) else Inr (Val v))"
  by (cases m) (auto split: sum.splits)

lemma issued_decoded:
  assumes "except_class (method_of c) = Some cls"
  shows "\<exists>rq rs k. issued env c s = [Http rq rs, Decode k rs]
           \<and> rs = respond env (trace s) rq
           \<and> attempted (method_of c) = Some k
           \<and> fst (invoke env c s) =
               try_except
                 (case decode env k rs of
                    Inl e \<Rightarrow> Inl e
                  | Inr v \<Rightarrow>
                      if method_of c = Get_full_params
                      then map_sum id Vals (dict_values env v) else Inr (Val v))
                 cls (Str (resp_text rs))"
proof -
  from issued_single [OF assms, of env s]
  obtain rq k where
    "issued env c s = [Http rq (respond env (trace s) rq), Decode k (respond env (trace s) rq)]"
    "attempted (method_of c) = Some k"
    "fst (invoke env c s) =
       try_except (try_body env (method_of c) (respond env (trace s) rq)) cls
         (Str (resp_text (respond env (trace s) rq)))"
    by blast
  then show ?thesis
    by (simp add: try_body_decode)
qed

lemma call_seq_self: "self (call_seq env cs s) = self s"
  by (induction cs arbitrary: s) (simp_all add: invoke_self)

subsection \<open>cleanup\<close>

text \<open>
  C9. \<open>cleanup\<close> issues its HTTP request and returns the server's response text if and
  only if the line read from the console is exactly \<open>y\<close>; on any other line it issues no
  request and returns \<open>None\<close>, although the signature declares \<open>str\<close>. The request goes
  to \<open>/cleanup\<close> with the parameters \<open>name\<close> and \<open>target\<close>.
\<close>

theorem cleanup_confirmation:
  assumes "stdin s = answer # rest"
  shows "if answer = ''y''
         then \<exists>rq rs. issued env (CallCleanup name target) s = [Http rq rs]
                \<and> r_verb rq = GET \<and> r_url rq = url (self s) @ ''/cleanup''
                \<and> rs = respond env (trace s) rq
                \<and> fst (invoke env (CallCleanup name target) s) = Inr (Str (resp_text rs))
         else issued env (CallCleanup name target) s = []
                \<and> fst (invoke env (CallCleanup name target) s) = Inr PyNone"
  using assms
  by (auto simp: issued_def cleanup_def input_line_def requests_get_def requests_call_def
      Let_def)

theorem cleanup_confirmation_witness:
  "stdin demo_world = ''y'' # [''n'']
   \<and> (\<exists>rq rs. issued demo_env (CallCleanup ''house'' None) demo_world = [Http rq rs]
        \<and> fst (invoke demo_env (CallCleanup ''house'' None) demo_world)
            = Inr (Str (resp_text rs)))
   \<and> stdin (demo_world\<lparr>stdin := [''n'']\<rparr>) = ''n'' # []
   \<and> fst (invoke demo_env (CallCleanup ''house'' None) (demo_world\<lparr>stdin := [''n'']\<rparr>))
       = Inr PyNone
   \<and> issued demo_env (CallCleanup ''house'' None) (demo_world\<lparr>stdin := [''n'']\<rparr>) = []"
proof -
  have y: "stdin demo_world = ''y'' # [''n'']"
    by (simp add: demo_world_def)
  have n: "stdin (demo_world\<lparr>stdin := [''n'']\<rparr>) = ''n'' # []"
    by simp
  from cleanup_confirmation [OF y, of demo_env "''house''" None]
    cleanup_confirmation [OF n, of demo_env "''house''" None]
  show ?thesis using y by auto
qed

subsection \<open>Decoding failures\<close>

lemma demo_get_model:
  "issued demo_env (CallGet_model name) demo_world =
     [Http \<lparr>r_verb = GET, r_url = ''http://localhost:5000/model'',
             r_params = Some [''name'' \<mapsto> QStr name], r_data = None\<rparr>
        (demo_respond [] \<lparr>r_verb = GET, r_url = ''http://localhost:5000/model'',
             r_params = Some [''name'' \<mapsto> QStr name], r_data = None\<rparr>),
      Decode Pickled
        (demo_respond [] \<lparr>r_verb = GET, r_url = ''http://localhost:5000/model'',
             r_params = Some [''name'' \<mapsto> QStr name], r_data = None\<rparr>)]"
  using demo_url
  by (simp add: issued_def get_model_def requests_get_def requests_call_def dill_loads_def response_json_def
      Let_def) (simp add: demo_world_def demo_env_def)

text \<open>
  C1, as stated, fails: a decoding can fail with an exception that the method does not
  catch. The server answers \<open>get_model\<close> for the setup \<open>ghost\<close> with an empty body;
  \<open>dill.loads\<close> raises \<open>EOFError\<close> on it, the clause \<open>except dill.UnpicklingError\<close> does
  not apply, and the method raises instead of returning the text.
\<close>

theorem decode_failure_counterexample:
  "http_responses (issued demo_env (CallGet_model ''ghost'') demo_world) =
     [\<lparr>resp_text = [], resp_content = []\<rparr>]
   \<and> try_body demo_env Get_model \<lparr>resp_text = [], resp_content = []\<rparr> = Inl EOFError
   \<and> fst (invoke demo_env (CallGet_model ''ghost'') demo_world) = Inl EOFError
   \<and> fst (invoke demo_env (CallGet_model ''ghost'') demo_world) \<noteq> Inr (Str [])"
  by (simp add: demo_get_model)
    (simp add: get_model_def requests_get_def requests_call_def dill_loads_def response_json_def Let_def
      demo_respond_def dill_loads_def try_except_def isinstance_def demo_env_def)

text \<open>
  C1, amended. For every method that decodes its response (\<open>calculate\<close>, \<open>status\<close>,
  \<open>results\<close>, \<open>reinstate\<close>, \<open>instate\<close>, \<open>get_model\<close>, \<open>get_params\<close>, \<open>get_full_params\<close>,
  \<open>get_lca\<close>, \<open>get_cost\<close>, \<open>get_energy\<close>, \<open>get_energy_detailed\<close>): the call sends one
  request and attempts one decoding of its response; when the decoding raises an exception
  of the class the method's \<open>except\<close> clause names (or of a subclass), the method returns
  \<open>response.text\<close> verbatim; when it raises any other exception, the exception reaches
  the caller; when it succeeds, the method returns the decoded value.
\<close>

theorem except_clause_returns_text:
  assumes "except_class (method_of c) = Some cls"
  shows "\<exists>rq rs k. issued env c s = [Http rq rs, Decode k rs]
           \<and> rs = respond env (trace s) rq
           \<and> (case try_body env (method_of c) rs of
                 Inr v \<Rightarrow> fst (invoke env c s) = Inr v
               | Inl e \<Rightarrow>
                   fst (invoke env c s) =
                     (if isinstance e cls then Inr (Str (resp_text rs)) else Inl e))"
proof -
  from issued_single [OF assms, of env s]
  obtain rq k where
    "issued env c s = [Http rq (respond env (trace s) rq), Decode k (respond env (trace s) rq)]"
    "fst (invoke env c s) =
       try_except (try_body env (method_of c) (respond env (trace s) rq)) cls
         (Str (resp_text (respond env (trace s) rq)))"
    by blast
  then show ?thesis
    by (auto simp: try_except_def split: sum.splits)
qed

theorem except_clause_returns_text_witness:
  "except_class (method_of (CallGet_model ''locked'' :: string call)) = Some UnpicklingError
   \<and> try_body demo_env Get_model \<lparr>resp_text = ''ERROR: locked'', resp_content = ''ERROR: locked''\<rparr>
       = Inl UnpicklingError
   \<and> fst (invoke demo_env (CallGet_model ''locked'') demo_world) = Inr (Str ''ERROR: locked'')"
proof -
  have h: "except_class (method_of (CallGet_model ''locked'' :: string call)) = Some UnpicklingError"
    by simp
  have body: "try_body demo_env Get_model
      \<lparr>resp_text = ''ERROR: locked'', resp_content = ''ERROR: locked''\<rparr> = Inl UnpicklingError"
    by (simp add: demo_env_def)
  from except_clause_returns_text [OF h, of demo_env demo_world]
  obtain rq rs k where
    ev: "issued demo_env (CallGet_model ''locked'') demo_world = [Http rq rs, Decode k rs]"
    and res: "case try_body demo_env (method_of (CallGet_model ''locked'' :: string call)) rs of
        Inr v \<Rightarrow> fst (invoke demo_env (CallGet_model ''locked'') demo_world) = Inr v
      | Inl e \<Rightarrow> fst (invoke demo_env (CallGet_model ''locked'') demo_world) =
          (if isinstance e UnpicklingError then Inr (Str (resp_text rs)) else Inl e)"
    by blast
  from ev have "rs = \<lparr>resp_text = ''ERROR: locked'', resp_content = ''ERROR: locked''\<rparr>"
    by (simp add: demo_get_model demo_respond_def)
  with res body have
    "fst (invoke demo_env (CallGet_model ''locked'') demo_world) = Inr (Str ''ERROR: locked'')"
    by (simp add: isinstance_def)
  with h body show ?thesis
    by simp
qed

subsection \<open>Decodings per call\<close>

lemma demo_cleanup:
  "issued demo_env (CallCleanup ''house'' None) demo_world =
     [Http \<lparr>r_verb = GET, r_url = ''http://localhost:5000/cleanup'',
             r_params = Some [''name'' \<mapsto> QStr ''house'', ''target'' \<mapsto> QNone],
             r_data = None\<rparr>
        \<lparr>resp_text = ''OK: done'', resp_content = ''OK: done''\<rparr>]"
  using demo_url
  by (simp add: issued_cleanup) (simp add: demo_world_def demo_env_def demo_respond_def)

text \<open>
  C4, as stated, fails for \<open>setup\<close> and \<open>cleanup\<close>: they return \<open>response.text\<close> as it
  is and decode nothing. Here \<open>cleanup\<close> is confirmed, sends its request and attempts no
  decoding; \<open>setup\<close> sends two requests and attempts no decoding.
\<close>

theorem one_decoding_counterexample:
  "length (http_requests (issued demo_env (CallCleanup ''house'' None) demo_world)) = 1
   \<and> decodings (issued demo_env (CallCleanup ''house'' None) demo_world) = []
   \<and> decodings (issued demo_env
        (CallSetup ''house'' (Some ''weather.epw'') None None None None None None None True)
        demo_world) = []"
  by (simp add: demo_cleanup issued_setup exchanges_decodings)

text \<open>
  C4, amended. Every public method other than \<open>setup\<close> and \<open>cleanup\<close>, on every
  invocation, attempts exactly one decoding, of the response it has just received, and
  that decoding is one of three kinds: JSON (\<open>response.json()\<close>) for \<open>calculate\<close>,
  \<open>status\<close>, \<open>reinstate\<close>, \<open>instate\<close> and \<open>get_params\<close>; tabular (\<open>pd.read_json\<close> of the
  JSON payload) for \<open>results\<close>, \<open>get_energy\<close> and \<open>get_energy_detailed\<close>; object
  deserialization (\<open>dill.loads\<close> of the raw content) for \<open>get_model\<close>, \<open>get_full_params\<close>,
  \<open>get_lca\<close> and \<open>get_cost\<close>. What the method returns is made of the outcome of that
  library expression on that response: the decoded value (for \<open>get_full_params\<close> the
  list of its \<open>values()\<close>), or what the \<open>except\<close> clause makes of the exception.
  \<open>setup\<close> and \<open>cleanup\<close> attempt no decoding.
\<close>

theorem decodings_per_call:
  "if method_of c = Setup \<or> method_of c = Cleanup
   then decodings (issued env c s) = []
   else \<exists>rq rs k cls.
          issued env c s = [Http rq rs, Decode k rs]
          \<and> rs = respond env (trace s) rq
          \<and> decodings (issued env c s) = [(k, rs)]
          \<and> k = (if method_of c \<in> {Calculate, Status, Reinstate, Instate, Get_params} then JSON
                else if method_of c \<in> {Results, Get_energy, Get_energy_detailed} then Tabular
                else Pickled)
          \<and> except_class (method_of c) = Some cls
          \<and> fst (invoke env c s) =
              try_except
                (case decode env k rs of
                   Inl e \<Rightarrow> Inl e
                 | Inr v \<Rightarrow>
                     if method_of c = Get_full_params
                     then map_sum id Vals (dict_values env v) else Inr (Val v))
                cls (Str (resp_text rs))"
proof (cases "method_of c = Setup \<or> method_of c = Cleanup")
  case True
  then show ?thesis
    by (simp only: issued_decodings if_True)
next
  case False
  then obtain cls where cls: "except_class (method_of c) = Some cls"
    using method_cases [of c] by blast
  from issued_decoded [OF cls, of env s]
  obtain rq rs k where
    ev: "issued env c s = [Http rq rs, Decode k rs]"
    and rs: "rs = respond env (trace s) rq"
    and k: "attempted (method_of c) = Some k"
    and res: "fst (invoke env c s) =
       try_except
         (case decode env k rs of
            Inl e \<Rightarrow> Inl e
          | Inr v \<Rightarrow>
              if method_of c = Get_full_params
              then map_sum id Vals (dict_values env v) else Inr (Val v))
         cls (Str (resp_text rs))"
    by blast
  from k have kind:
    "k = (if method_of c \<in> {Calculate, Status, Reinstate, Instate, Get_params} then JSON
          else if method_of c \<in> {Results, Get_energy, Get_energy_detailed} then Tabular
          else Pickled)"
    by (cases "method_of c") simp_all
  from ev have "decodings (issued env c s) = [(k, rs)]"
    by simp
  with False ev rs kind cls res show ?thesis
    by (simp only: if_False) blast
qed

lemma demo_results:
  "issued demo_env (CallResults ''house'') demo_world =
     [Http \<lparr>r_verb = GET, r_url = ''http://localhost:5000/results'',
             r_params = Some [''name'' \<mapsto> QStr ''house''], r_data = None\<rparr>
        \<lparr>resp_text = ''OK: done'', resp_content = ''OK: done''\<rparr>,
      Decode Tabular \<lparr>resp_text = ''OK: done'', resp_content = ''OK: done''\<rparr>]"
  using demo_url
  by (simp add: issued_def results_def requests_get_def requests_call_def pd_read_json_def
      Let_def) (simp add: demo_world_def demo_env_def demo_respond_def)

theorem decodings_per_call_witness:
  "decodings (issued demo_env (CallResults ''house'') demo_world) =
     [(Tabular, \<lparr>resp_text = ''OK: done'', resp_content = ''OK: done''\<rparr>)]
   \<and> decode demo_env Tabular \<lparr>resp_text = ''OK: done'', resp_content = ''OK: done''\<rparr>
       = Inl JSONDecodeError
   \<and> fst (invoke demo_env (CallResults ''house'') demo_world) = Inr (Str ''OK: done'')
   \<and> decodings (issued demo_env (CallCleanup ''house'' None) demo_world) = []"
proof -
  have d: "decode demo_env Tabular \<lparr>resp_text = ''OK: done'', resp_content = ''OK: done''\<rparr>
       = Inl JSONDecodeError"
    by (simp add: demo_env_def)
  from decodings_per_call [of "CallResults ''house''" demo_env demo_world]
  obtain rq rs k cls where
    "issued demo_env (CallResults ''house'') demo_world = [Http rq rs, Decode k rs]"
    and k: "k = Tabular"
    and cls: "except_class (method_of (CallResults ''house'' :: string call)) = Some cls"
    and res: "fst (invoke demo_env (CallResults ''house'') demo_world) =
       try_except
         (case decode demo_env k rs of
            Inl e \<Rightarrow> Inl e
          | Inr v \<Rightarrow>
              if method_of (CallResults ''house'' :: string call) = Get_full_params
              then map_sum id Vals (dict_values demo_env v) else Inr (Val v))
         cls (Str (resp_text rs))"
    by (auto simp del: invoke.simps)
  then have rs: "rs = \<lparr>resp_text = ''OK: done'', resp_content = ''OK: done''\<rparr>"
    and dec: "decodings (issued demo_env (CallResults ''house'') demo_world) = [(Tabular, rs)]"
    by (simp_all add: demo_results)
  from cls have "cls = JSONDecodeError"
    by simp
  with res k rs d have
    "fst (invoke demo_env (CallResults ''house'') demo_world) = Inr (Str ''OK: done'')"
    by (simp add: try_except_def isinstance_def del: invoke.simps)
  moreover from decodings_per_call [of "CallCleanup ''house'' None" demo_env demo_world]
  have "decodings (issued demo_env (CallCleanup ''house'' None) demo_world) = []"
    by simp
  ultimately show ?thesis
    using d dec rs by simp
qed

subsection \<open>The client object\<close>

text \<open>
  C5. No public method modifies the client: after any call, and after any sequence of
  calls, the client object is the one before, so the fields \<open>host\<close>, \<open>port\<close> and \<open>url\<close>
  have the values \<open>__init__\<close> gave them. Hence no method reads client state written by
  another method: there is none.
\<close>

theorem client_unchanged:
  "self (snd (invoke env c s)) = self s
   \<and> self (call_seq env cs s) = self s
   \<and> (self s = init h p \<longrightarrow>
        host (self (call_seq env cs s)) = h
        \<and> port (self (call_seq env cs s)) = p
        \<and> url (self (call_seq env cs s)) = h @ '':'' @ str_int p)"
  by (simp add: invoke_self call_seq_self init_def)

theorem client_unchanged_witness:
  "self demo_world = init ''http://localhost'' 5000
   \<and> host (self (call_seq demo_env [CallStatus, CallCleanup ''house'' None, CallGet_model ''house'']
        demo_world)) = ''http://localhost''
   \<and> port (self (call_seq demo_env [CallStatus, CallCleanup ''house'' None, CallGet_model ''house'']
        demo_world)) = 5000
   \<and> url (self (call_seq demo_env [CallStatus, CallCleanup ''house'' None, CallGet_model ''house'']
        demo_world)) = ''http://localhost:5000''"
proof -
  have h: "self demo_world = init ''http://localhost'' 5000"
    by (simp add: demo_world_def)
  from client_unchanged [of demo_env _ demo_world
      "[CallStatus, CallCleanup ''house'' None, CallGet_model ''house'']" "''http://localhost''" 5000]
    h show ?thesis
    by (simp add: str_int_5000 init_def del: call_seq.simps)
qed

subsection \<open>The address of a request\<close>

text \<open>
  C6. Every HTTP request a public method issues is addressed to the URL made of
  \<open>host:port\<close>, as \<open>__init__\<close> built it, followed by the fixed path of the method; the
  arguments of the call have no part in it.
\<close>

theorem request_address:
  assumes "self s = init h p"
  shows "\<forall>rq \<in> set (http_requests (issued env c s)).
           r_url rq = h @ '':'' @ str_int p @ endpoint (method_of c)"
  using assms issued_urls [of _ env c s]
  by (simp add: init_def)

theorem request_address_witness:
  "self demo_world = init ''http://localhost'' 5000
   \<and> http_requests (issued demo_env (CallGet_model ''house'') demo_world) \<noteq> []
   \<and> r_url (hd (http_requests (issued demo_env (CallGet_model ''house'') demo_world)))
       = ''http://localhost:5000/model''"
proof -
  have h: "self demo_world = init ''http://localhost'' 5000"
    by (simp add: demo_world_def)
  have ne: "http_requests (issued demo_env (CallGet_model ''house'') demo_world) \<noteq> []"
    by (simp add: demo_get_model)
  then have "hd (http_requests (issued demo_env (CallGet_model ''house'') demo_world))
      \<in> set (http_requests (issued demo_env (CallGet_model ''house'') demo_world))"
    by simp
  with request_address [OF h, of demo_env "CallGet_model ''house''"]
  have "r_url (hd (http_requests (issued demo_env (CallGet_model ''house'') demo_world)))
      = ''http://localhost'' @ '':'' @ str_int 5000
          @ endpoint (method_of (CallGet_model ''house'' :: string call))"
    by blast
  with h ne show ?thesis
    by (simp add: str_int_5000)
qed

subsection \<open>The three evaluation modes\<close>

text \<open>
  C7. \<open>calculate\<close> and \<open>instate\<close> send, to \<open>/calculate\<close> and \<open>/instate\<close>, the query
  parameters \<open>{'name': name}\<close> updated with the supplied parameters mapping: the key
  \<open>name\<close> is among them and so is every key-value pair of the mapping. \<open>reinstate\<close>
  sends to \<open>/reinstate\<close> the two keys \<open>name\<close> and \<open>id\<close> (the calculation id) and nothing
  else. Each call sends this one request.
\<close>

theorem evaluation_modes:
  "http_requests (issued env (CallCalculate name parameters) s) =
     [\<lparr>r_verb = GET, r_url = url (self s) @ ''/calculate'',
        r_params = Some ([''name'' \<mapsto> QStr name] ++ parameters), r_data = None\<rparr>]
   \<and> http_requests (issued env (CallInstate name parameters options) s) =
     [\<lparr>r_verb = (if options = None then GET else POST), r_url = url (self s) @ ''/instate'',
        r_params = Some ([''name'' \<mapsto> QStr name] ++ parameters),
        r_data = map_option (\<lambda>opts. BText (json_dumps env opts)) options\<rparr>]
   \<and> http_requests (issued env (CallReinstate name calc_id) s) =
     [\<lparr>r_verb = GET, r_url = url (self s) @ ''/reinstate'',
        r_params = Some [''name'' \<mapsto> QStr name, ''id'' \<mapsto> QStr calc_id], r_data = None\<rparr>]
   \<and> ''name'' \<in> dom ([''name'' \<mapsto> QStr name] ++ parameters)
   \<and> (\<forall>k v. parameters k = Some v \<longrightarrow> ([''name'' \<mapsto> QStr name] ++ parameters) k = Some v)
   \<and> dom [''name'' \<mapsto> QStr name, ''id'' \<mapsto> QStr calc_id] = {''name'', ''id''}
   \<and> [''name'' \<mapsto> QStr name, ''id'' \<mapsto> QStr calc_id] ''id'' = Some (QStr calc_id)
   \<and> [''name'' \<mapsto> QStr name, ''id'' \<mapsto> QStr calc_id] ''name'' = Some (QStr name)"
proof -
  have "http_requests (issued env (CallInstate name parameters options) s) =
     [\<lparr>r_verb = (if options = None then GET else POST), r_url = url (self s) @ ''/instate'',
        r_params = Some ([''name'' \<mapsto> QStr name] ++ parameters),
        r_data = map_option (\<lambda>opts. BText (json_dumps env opts)) options\<rparr>]"
    by (cases options) (simp_all add: issued_def single_defs)
  moreover have "http_requests (issued env (CallCalculate name parameters) s) =
     [\<lparr>r_verb = GET, r_url = url (self s) @ ''/calculate'',
        r_params = Some ([''name'' \<mapsto> QStr name] ++ parameters), r_data = None\<rparr>]"
    by (simp add: issued_def single_defs)
  moreover have "http_requests (issued env (CallReinstate name calc_id) s) =
     [\<lparr>r_verb = GET, r_url = url (self s) @ ''/reinstate'',
        r_params = Some [''name'' \<mapsto> QStr name, ''id'' \<mapsto> QStr calc_id], r_data = None\<rparr>]"
    by (simp add: issued_def single_defs)
  moreover have "''name'' \<in> dom ([''name'' \<mapsto> QStr name] ++ parameters)"
    by simp
  moreover have "\<forall>k v. parameters k = Some v \<longrightarrow>
      ([''name'' \<mapsto> QStr name] ++ parameters) k = Some v"
    by (simp add: map_add_def)
  moreover have "dom [''name'' \<mapsto> QStr name, ''id'' \<mapsto> QStr calc_id] = {''name'', ''id''}"
    by auto
  ultimately show ?thesis
    by simp
qed

theorem evaluation_modes_witness:
  "[''wall'' \<mapsto> QInt 3] ''wall'' = Some (QInt 3)
   \<and> (\<exists>ps. map r_params (http_requests
          (issued demo_env (CallCalculate ''house'' [''wall'' \<mapsto> QInt 3]) demo_world)) = [Some ps]
        \<and> ps ''wall'' = Some (QInt 3) \<and> ps ''name'' = Some (QStr ''house''))
   \<and> map r_url (http_requests
          (issued demo_env (CallInstate ''house'' [''wall'' \<mapsto> QInt 3] None) demo_world))
       = [''http://localhost:5000/instate'']
   \<and> map r_url (http_requests (issued demo_env (CallReinstate ''house'' ''42'') demo_world))
       = [''http://localhost:5000/reinstate'']"
  using evaluation_modes [of demo_env "''house''" "[''wall'' \<mapsto> QInt 3]" demo_world None "''42''"]
  by (simp add: demo_url)

subsection \<open>setup: what a run of the plan leaves\<close>

lemma flagged_types:
  "map h (filter fst xs) = map snd (filter fst (map (\<lambda>c. (fst c, h c)) xs))"
  by (induction xs) simp_all

lemma planned_types:
  "map component_type (planned env name epw weather_data idf model parameters lca_calculation
     cost_calculation energy_calculation init_db) =
   map snd (filter fst
     [(epw \<noteq> None, Some (QStr ''epw'')),
      (weather_data \<noteq> None, Some (QStr ''weather_data'')),
      (idf \<noteq> None, Some (QStr ''idf'')),
      (model \<noteq> None, Some (QStr ''model'')),
      (parameters \<noteq> None, Some (QStr ''parameters'')),
      (lca_calculation \<noteq> None, Some (QStr ''lca_calculation'')),
      (cost_calculation \<noteq> None, Some (QStr ''cost_calculation'')),
      (init_db, Some (QStr ''database'')),
      (energy_calculation = Some ''simulation'' \<or> energy_calculation = Some ''steady_state'',
       Some (QStr ''energy_calculation''))])"
proof -
  have "map (\<lambda>c. (fst c, component_type c))
      (components env name epw weather_data idf model parameters lca_calculation
         cost_calculation energy_calculation init_db) =
     [(epw \<noteq> None, Some (QStr ''epw'')),
      (weather_data \<noteq> None, Some (QStr ''weather_data'')),
      (idf \<noteq> None, Some (QStr ''idf'')),
      (model \<noteq> None, Some (QStr ''model'')),
      (parameters \<noteq> None, Some (QStr ''parameters'')),
      (lca_calculation \<noteq> None, Some (QStr ''lca_calculation'')),
      (cost_calculation \<noteq> None, Some (QStr ''cost_calculation'')),
      (init_db, Some (QStr ''database'')),
      (energy_calculation = Some ''simulation'' \<or> energy_calculation = Some ''steady_state'',
       Some (QStr ''energy_calculation''))]"
    by (simp add: components_def component_type_def)
  then show ?thesis
    unfolding planned_def by (simp only: flagged_types [of component_type])
qed

lemma setup_outcome:
  "let c = CallSetup name epw weather_data idf model parameters lca_calculation
             cost_calculation energy_calculation init_db;
       cs = planned env name epw weather_data idf model parameters lca_calculation
              cost_calculation energy_calculation init_db;
       evs = issued env c s;
       rss = http_responses evs
   in http_requests evs =
        take (length evs) (map (component_request (url (self s) @ ''/setup'')) cs)
      \<and> length rss = length evs
      \<and> (\<forall>rs \<in> set (butlast rss). startswith (resp_text rs) ''OK'')
      \<and> (if rss \<noteq> [] \<and> \<not> startswith (resp_text (last rss)) ''OK''
          then fst (invoke env c s) = Inr (Str (resp_text (last rss)))
          else length evs = length cs
               \<and> fst (invoke env c s) =
                   Inr (Str (if rejected_mode energy_calculation then energy_message
                             else CHR 0x0A # pformat env (success_dict cs rss))))"
proof -
  let ?c = "CallSetup name epw weather_data idf model parameters lca_calculation
             cost_calculation energy_calculation init_db"
  let ?cs = "planned env name epw weather_data idf model parameters lca_calculation
              cost_calculation energy_calculation init_db"
  let ?u = "url (self s) @ ''/setup''"
  let ?evs = "exchanges env ?u ?cs (trace s)"
  let ?rss = "http_responses ?evs"
  have ev: "issued env ?c s = ?evs"
    by (simp only: issued_setup)
  have a: "http_requests ?evs = take (length ?evs) (map (component_request ?u) ?cs)"
    by (rule exchanges_requests)
  have b: "length ?rss = length ?evs"
    by (rule exchanges_responses_length)
  have c: "\<forall>rs \<in> set (butlast ?rss). startswith (resp_text rs) ''OK''"
    using exchanges_butlast_ok by blast
  have res: "fst (invoke env ?c s) =
      Inr (Str (case outcome Map.empty ?cs ?rss of
                  Inl t \<Rightarrow> t
                | Inr success \<Rightarrow>
                    if rejected_mode energy_calculation then energy_message
                    else CHR 0x0A # pformat env success))"
    using setup_result [of env name epw weather_data idf model parameters lca_calculation
        cost_calculation energy_calculation init_db s]
    by (simp only: ev)
  have d: "fst (invoke env ?c s) = Inr (Str (resp_text (last ?rss)))"
    if "?rss \<noteq> [] \<and> \<not> startswith (resp_text (last ?rss)) ''OK''"
    using that unfolding res by (simp add: outcome_def)
  have e: "length ?evs = length ?cs
      \<and> fst (invoke env ?c s) =
          Inr (Str (if rejected_mode energy_calculation then energy_message
                    else CHR 0x0A # pformat env (success_dict ?cs ?rss)))"
    if n: "\<not> (?rss \<noteq> [] \<and> \<not> startswith (resp_text (last ?rss)) ''OK'')"
  proof
    have "\<forall>rs \<in> set ?rss. startswith (resp_text rs) ''OK''"
    proof (cases "?rss = []")
      case True
      then show ?thesis by simp
    next
      case False
      with n have "startswith (resp_text (last ?rss)) ''OK''"
        by blast
      moreover from False have "?evs \<noteq> []"
        using b by auto
      ultimately show ?thesis
        using exchanges_last_ok by blast
    qed
    then show "length ?evs = length ?cs"
      by (rule exchanges_complete)
    show "fst (invoke env ?c s) =
          Inr (Str (if rejected_mode energy_calculation then energy_message
                    else CHR 0x0A # pformat env (success_dict ?cs ?rss)))"
      using n unfolding res by (auto simp: outcome_def)
  qed
  show ?thesis
    unfolding Let_def ev
    using a b c d e by (simp only: if_split) blast
qed

lemma flagged_member: "(x \<in> set (map snd (filter fst xs))) = ((True, x) \<in> set xs)"
  by (induction xs) auto

lemma rejected_not_mode:
  "rejected_mode energy_calculation \<Longrightarrow>
   \<not> (energy_calculation = Some ''simulation'' \<or> energy_calculation = Some ''steady_state'')"
  by (auto simp: rejected_mode_def)

lemma components_butlast:
  "butlast (components env name epw weather_data idf model parameters lca_calculation
      cost_calculation energy_calculation init_db) =
   butlast (components env name epw weather_data idf model parameters lca_calculation
      cost_calculation None init_db)"
  by (simp add: components_def)

lemma components_last:
  "\<not> (energy_calculation = Some ''simulation'' \<or> energy_calculation = Some ''steady_state'') \<Longrightarrow>
   \<not> fst (last (components env name epw weather_data idf model parameters lca_calculation
      cost_calculation energy_calculation init_db))"
  by (simp add: components_def)

lemma filter_butlast: "xs \<noteq> [] \<Longrightarrow> \<not> P (last xs) \<Longrightarrow> filter P xs = filter P (butlast xs)"
  by (induction xs) auto

lemma planned_rejected:
  assumes "rejected_mode energy_calculation"
  shows "planned env name epw weather_data idf model parameters lca_calculation
      cost_calculation energy_calculation init_db =
    planned env name epw weather_data idf model parameters lca_calculation
      cost_calculation None init_db"
proof -
  have ne: "components env name epw weather_data idf model parameters lca_calculation
      cost_calculation e init_db \<noteq> []" for e
    by (simp add: components_def)
  have "filter fst (components env name epw weather_data idf model parameters lca_calculation
      cost_calculation energy_calculation init_db) =
    filter fst (butlast (components env name epw weather_data idf model parameters
      lca_calculation cost_calculation energy_calculation init_db))"
    using ne components_last [OF rejected_not_mode [OF assms]] by (rule filter_butlast)
  moreover have "filter fst (components env name epw weather_data idf model parameters
      lca_calculation cost_calculation None init_db) =
    filter fst (butlast (components env name epw weather_data idf model parameters
      lca_calculation cost_calculation None init_db))"
    using ne components_last [of None] by (intro filter_butlast) simp_all
  ultimately show ?thesis
    unfolding planned_def by (simp only: components_butlast [of env name epw weather_data idf
      model parameters lca_calculation cost_calculation energy_calculation init_db])
qed

lemma planned_rejected_types:
  assumes "rejected_mode energy_calculation"
    and "c \<in> set (planned env name epw weather_data idf model parameters lca_calculation
      cost_calculation energy_calculation init_db)"
  shows "fst (snd c) ''type'' \<noteq> Some (QStr ''energy_calculation'')"
proof
  assume "fst (snd c) ''type'' = Some (QStr ''energy_calculation'')"
  with assms(2) have "Some (QStr ''energy_calculation'') \<in> set (map component_type
      (planned env name epw weather_data idf model parameters lca_calculation
        cost_calculation energy_calculation init_db))"
    by (force simp: component_type_def)
  then show False
    unfolding planned_types flagged_member
    using rejected_not_mode [OF assms(1)] by simp
qed

lemma exchanges_Nil: "exchanges env u [] h = []"
  by simp

subsection \<open>setup on the concrete environment\<close>

lemma demo_planned_epw:
  "planned demo_env name (Some ''weather.epw'') None None None None None None None True =
     [(True, [''name'' \<mapsto> QStr name, ''type'' \<mapsto> QStr ''epw''],
        Some (BText ''LOCATION,Budapest''), ''epw''),
      (True, [''name'' \<mapsto> QStr name, ''type'' \<mapsto> QStr ''database''], None, ''Database'')]"
  by (simp add: planned_def components_def) (simp add: demo_env_def)

lemma demo_planned_rejected:
  "planned demo_env name None None None None None None None (Some ''hourly'') True =
     [(True, [''name'' \<mapsto> QStr name, ''type'' \<mapsto> QStr ''database''], None, ''Database'')]"
  by (simp add: planned_def components_def)

lemma demo_respond_house:
  "demo_respond h \<lparr>r_verb = v, r_url = u, r_params = Some ([''name'' \<mapsto> QStr ''house''](k \<mapsto> x)),
      r_data = d\<rparr> =
     (if k = ''name'' \<and> x = QStr ''ghost'' then \<lparr>resp_text = [], resp_content = []\<rparr>
      else if k = ''name'' \<and> x = QStr ''locked''
      then \<lparr>resp_text = ''ERROR: locked'', resp_content = ''ERROR: locked''\<rparr>
      else \<lparr>resp_text = ''OK: done'', resp_content = ''OK: done''\<rparr>)"
  by (simp add: demo_respond_def)

lemma demo_respond_locked:
  "k \<noteq> ''name'' \<Longrightarrow>
   demo_respond h \<lparr>r_verb = v, r_url = u, r_params = Some ([''name'' \<mapsto> QStr ''locked''](k \<mapsto> x)),
      r_data = d\<rparr> = \<lparr>resp_text = ''ERROR: locked'', resp_content = ''ERROR: locked''\<rparr>"
  by (simp add: demo_respond_def)

lemma respond_demo: "respond demo_env = demo_respond"
  by (simp add: demo_env_def)

lemma demo_responses_epw:
  "http_responses (issued demo_env
      (CallSetup ''house'' (Some ''weather.epw'') None None None None None None None True)
      demo_world) =
   [\<lparr>resp_text = ''OK: done'', resp_content = ''OK: done''\<rparr>,
    \<lparr>resp_text = ''OK: done'', resp_content = ''OK: done''\<rparr>]"
  by (simp add: issued_setup demo_planned_epw exchanges_Cons component_request_def
      respond_demo demo_respond_house startswith_def exchanges_Nil del: exchanges.simps)

lemma demo_responses_epw_locked:
  "http_responses (issued demo_env
      (CallSetup ''locked'' (Some ''weather.epw'') None None None None None None None True)
      demo_world) =
   [\<lparr>resp_text = ''ERROR: locked'', resp_content = ''ERROR: locked''\<rparr>]"
  by (simp add: issued_setup demo_planned_epw exchanges_Cons component_request_def
      respond_demo demo_respond_locked startswith_def exchanges_Nil del: exchanges.simps)

lemma demo_responses_rejected:
  "http_responses (issued demo_env
      (CallSetup ''house'' None None None None None None None (Some ''hourly'') True)
      demo_world) =
   [\<lparr>resp_text = ''OK: done'', resp_content = ''OK: done''\<rparr>]"
  by (simp add: issued_setup demo_planned_rejected exchanges_Cons component_request_def
      respond_demo demo_respond_house startswith_def exchanges_Nil del: exchanges.simps)

lemma demo_responses_rejected_locked:
  "http_responses (issued demo_env
      (CallSetup ''locked'' None None None None None None None (Some ''hourly'') True)
      demo_world) =
   [\<lparr>resp_text = ''ERROR: locked'', resp_content = ''ERROR: locked''\<rparr>]"
  by (simp add: issued_setup demo_planned_rejected exchanges_Cons component_request_def
      respond_demo demo_respond_locked startswith_def exchanges_Nil del: exchanges.simps)

lemma demo_rejected: "rejected_mode (Some ''hourly'')"
  by (simp add: rejected_mode_def)

lemma demo_result_rejected:
  "fst (invoke demo_env
      (CallSetup ''house'' None None None None None None None (Some ''hourly'') True)
      demo_world) = Inr (Str energy_message)"
  using setup_outcome [of "''house''" None None None None None None None "Some ''hourly''" True
      demo_env demo_world]
  by (simp add: Let_def demo_responses_rejected startswith_def demo_rejected del: invoke.simps)

lemma demo_result_rejected_locked:
  "fst (invoke demo_env
      (CallSetup ''locked'' None None None None None None None (Some ''hourly'') True)
      demo_world) = Inr (Str ''ERROR: locked'')"
  using setup_outcome [of "''locked''" None None None None None None None "Some ''hourly''" True
      demo_env demo_world]
  by (simp add: Let_def demo_responses_rejected_locked startswith_def del: invoke.simps)

subsection \<open>Requests per call\<close>











subsection \<open>setup: the plan and the result\<close>

text \<open>
  C8, as stated, fails in its last clause: with an energy calculation string that is not
  a mode, every issued request can succeed and \<open>setup\<close> still does not return the
  formatted \<open>success\<close> dict. Here the only request, for the database, is answered with
  \<open>OK: done\<close>, and \<open>setup\<close> returns the message about the energy calculation type.
\<close>

theorem setup_success_counterexample:
  "http_responses (issued demo_env
      (CallSetup ''house'' None None None None None None None (Some ''hourly'') True)
      demo_world) = [\<lparr>resp_text = ''OK: done'', resp_content = ''OK: done''\<rparr>]
   \<and> startswith ''OK: done'' ''OK''
   \<and> fst (invoke demo_env
        (CallSetup ''house'' None None None None None None None (Some ''hourly'') True)
        demo_world) = Inr (Str energy_message)
   \<and> fst (invoke demo_env
        (CallSetup ''house'' None None None None None None None (Some ''hourly'') True)
        demo_world) \<noteq> Inr (Str (CHR 0x0A # pformat demo_env [''Database'' \<mapsto> ''OK: done'']))"
  by (simp add: demo_responses_rejected demo_result_rejected startswith_def energy_message_def
      del: invoke.simps)

text \<open>
  C8, amended. \<open>setup\<close> issues its component requests in the fixed order \<open>epw\<close>,
  \<open>weather_data\<close>, \<open>idf\<close>, \<open>model\<close>, \<open>parameters\<close>, \<open>lca_calculation\<close>, \<open>cost_calculation\<close>,
  \<open>database\<close>, \<open>energy_calculation\<close> (each only when its argument is supplied, \<open>database\<close>
  whenever \<open>init_db\<close> is true, \<open>energy_calculation\<close> only when the string is
  \<open>simulation\<close> or \<open>steady_state\<close>): the requests issued are an initial part of that plan.
  At the first response whose text does not start with \<open>OK\<close> it returns that response
  text and issues none of the remaining requests. If every issued request succeeds, the
  whole plan has been issued, and \<open>setup\<close> returns a newline followed by the
  pretty-printed dict of success messages, unless the energy calculation string is not
  empty and not one of the two modes: then it returns the fixed message about the energy
  calculation type.
\<close>

theorem setup_order_early_return:
  "let c = CallSetup name epw weather_data idf model parameters lca_calculation
             cost_calculation energy_calculation init_db;
       cs = planned env name epw weather_data idf model parameters lca_calculation
              cost_calculation energy_calculation init_db;
       evs = issued env c s;
       rss = http_responses evs
   in map component_type cs =
        map snd (filter fst
          [(epw \<noteq> None, Some (QStr ''epw'')),
           (weather_data \<noteq> None, Some (QStr ''weather_data'')),
           (idf \<noteq> None, Some (QStr ''idf'')),
           (model \<noteq> None, Some (QStr ''model'')),
           (parameters \<noteq> None, Some (QStr ''parameters'')),
           (lca_calculation \<noteq> None, Some (QStr ''lca_calculation'')),
           (cost_calculation \<noteq> None, Some (QStr ''cost_calculation'')),
           (init_db, Some (QStr ''database'')),
           (energy_calculation = Some ''simulation'' \<or> energy_calculation = Some ''steady_state'',
            Some (QStr ''energy_calculation''))])
      \<and> http_requests evs =
          take (length evs) (map (component_request (url (self s) @ ''/setup'')) cs)
      \<and> length rss = length evs
      \<and> (\<forall>rs \<in> set (butlast rss). startswith (resp_text rs) ''OK'')
      \<and> (if rss \<noteq> [] \<and> \<not> startswith (resp_text (last rss)) ''OK''
          then fst (invoke env c s) = Inr (Str (resp_text (last rss)))
          else length evs = length cs
               \<and> fst (invoke env c s) =
                   Inr (Str (if rejected_mode energy_calculation then energy_message
                             else CHR 0x0A # pformat env (success_dict cs rss))))"
  unfolding Let_def
  by (rule conjI [OF planned_types
        setup_outcome [of name epw weather_data idf model parameters lca_calculation
          cost_calculation energy_calculation init_db env s, unfolded Let_def]])

theorem setup_order_early_return_witness:
  "fst (invoke demo_env
      (CallSetup ''house'' (Some ''weather.epw'') None None None None None None None True)
      demo_world) = Inr (Str (CHR 0x0A # ''{Database: OK: done}''))
   \<and> length (issued demo_env
        (CallSetup ''house'' (Some ''weather.epw'') None None None None None None None True)
        demo_world) = 2
   \<and> fst (invoke demo_env
        (CallSetup ''locked'' (Some ''weather.epw'') None None None None None None None True)
        demo_world) = Inr (Str ''ERROR: locked'')
   \<and> length (issued demo_env
        (CallSetup ''locked'' (Some ''weather.epw'') None None None None None None None True)
        demo_world) = 1"
proof -
  have p: "pformat demo_env (success_dict
      (planned demo_env ''house'' (Some ''weather.epw'') None None None None None None None True)
      [\<lparr>resp_text = ''OK: done'', resp_content = ''OK: done''\<rparr>,
       \<lparr>resp_text = ''OK: done'', resp_content = ''OK: done''\<rparr>]) = ''{Database: OK: done}''"
    by (simp add: demo_planned_epw) (simp add: demo_env_def)
  have r: "\<not> rejected_mode None"
    by (simp add: rejected_mode_def)
  from setup_order_early_return [of "''house''" "Some ''weather.epw''" None None None None None
      None None True demo_env demo_world]
  have "fst (invoke demo_env
      (CallSetup ''house'' (Some ''weather.epw'') None None None None None None None True)
      demo_world) = Inr (Str (CHR 0x0A # ''{Database: OK: done}''))
    \<and> length (issued demo_env
        (CallSetup ''house'' (Some ''weather.epw'') None None None None None None None True)
        demo_world) = 2"
    by (simp add: Let_def demo_responses_epw startswith_def p r del: invoke.simps)
  moreover
  from setup_order_early_return [of "''locked''" "Some ''weather.epw''" None None None None None
      None None True demo_env demo_world]
  have "fst (invoke demo_env
      (CallSetup ''locked'' (Some ''weather.epw'') None None None None None None None True)
      demo_world) = Inr (Str ''ERROR: locked'')
    \<and> length (issued demo_env
        (CallSetup ''locked'' (Some ''weather.epw'') None None None None None None None True)
        demo_world) = 1"
    by (simp add: Let_def demo_responses_epw_locked startswith_def del: invoke.simps)
  ultimately show ?thesis
    by blast
qed

subsection \<open>setup: the rejected energy calculation\<close>

text \<open>
  C10, as stated, fails when an earlier component request fails: \<open>setup\<close> then returns
  that response text and never reaches the validation of the energy calculation string.
  Here the database request is answered with \<open>ERROR: locked\<close>.
\<close>

theorem rejected_mode_counterexample:
  "rejected_mode (Some ''hourly'')
   \<and> fst (invoke demo_env
        (CallSetup ''locked'' None None None None None None None (Some ''hourly'') True)
        demo_world) = Inr (Str ''ERROR: locked'')
   \<and> fst (invoke demo_env
        (CallSetup ''locked'' None None None None None None None (Some ''hourly'') True)
        demo_world) \<noteq> Inr (Str energy_message)"
  by (simp add: demo_rejected demo_result_rejected_locked energy_message_def del: invoke.simps)

lemma set_butlast_last: "xs \<noteq> [] \<Longrightarrow> set xs = insert (last xs) (set (butlast xs))"
  by (induction xs) auto

text \<open>
  C10, amended. When \<open>setup\<close> is called with a non-empty \<open>energy_calculation\<close> string that
  is neither \<open>simulation\<close> nor \<open>steady_state\<close>, it sends no \<open>energy_calculation\<close> request.
  The validation comes after the earlier components: \<open>setup\<close> first sends their requests,
  those of the same call without an energy calculation (the database request among them
  when \<open>init_db\<close> is true). If each of them is answered with a text that starts with
  \<open>OK\<close>, they have all been sent and \<open>setup\<close> returns the fixed message
  \<open>Energy calculation type can be one of the following: simulation / steady_state\<close>; if
  one of them is not, \<open>setup\<close> returns that response text and the validation is not
  reached.
\<close>

theorem setup_rejected_mode:
  assumes "rejected_mode energy_calculation"
  shows
  "let c = CallSetup name epw weather_data idf model parameters lca_calculation
             cost_calculation energy_calculation init_db;
       cs = planned env name epw weather_data idf model parameters lca_calculation
              cost_calculation None init_db;
       evs = issued env c s;
       rss = http_responses evs
   in http_requests evs =
        take (length evs) (map (component_request (url (self s) @ ''/setup'')) cs)
      \<and> length rss = length evs
      \<and> (\<forall>rs \<in> set (butlast rss). startswith (resp_text rs) ''OK'')
      \<and> (\<forall>rq \<in> set (http_requests evs). \<forall>ps. r_params rq = Some ps \<longrightarrow>
            ps ''type'' \<noteq> Some (QStr ''energy_calculation''))
      \<and> (if rss \<noteq> [] \<and> \<not> startswith (resp_text (last rss)) ''OK''
          then fst (invoke env c s) = Inr (Str (resp_text (last rss)))
          else http_requests evs = map (component_request (url (self s) @ ''/setup'')) cs
               \<and> (\<forall>rs \<in> set rss. startswith (resp_text rs) ''OK'')
               \<and> fst (invoke env c s) = Inr (Str energy_message))"
proof -
  let ?c = "CallSetup name epw weather_data idf model parameters lca_calculation
             cost_calculation energy_calculation init_db"
  let ?cs = "planned env name epw weather_data idf model parameters lca_calculation
              cost_calculation None init_db"
  let ?u = "url (self s) @ ''/setup''"
  let ?evs = "issued env ?c s"
  let ?rss = "http_responses ?evs"
  note eq = planned_rejected [OF assms, of env name epw weather_data idf model parameters
      lca_calculation cost_calculation init_db]
  note o = setup_outcome [of name epw weather_data idf model parameters lca_calculation
      cost_calculation energy_calculation init_db env s, unfolded Let_def eq]
  have a: "http_requests ?evs = take (length ?evs) (map (component_request ?u) ?cs)"
    using o by blast
  have b: "\<forall>rq \<in> set (http_requests ?evs). \<forall>ps. r_params rq = Some ps \<longrightarrow>
            ps ''type'' \<noteq> Some (QStr ''energy_calculation'')"
  proof (intro ballI allI impI)
    fix rq ps
    assume rq: "rq \<in> set (http_requests ?evs)" and ps: "r_params rq = Some ps"
    from rq have "rq \<in> set (map (component_request ?u) ?cs)"
      unfolding a by (rule in_set_takeD)
    then obtain c where c: "c \<in> set ?cs" and "rq = component_request ?u c"
      by auto
    with ps have "ps = fst (snd c)"
      by (simp add: component_request_def)
    moreover from c have "fst (snd c) ''type'' \<noteq> Some (QStr ''energy_calculation'')"
      using planned_rejected_types [OF assms, of c env name epw weather_data idf model parameters
        lca_calculation cost_calculation init_db]
      unfolding eq by blast
    ultimately show "ps ''type'' \<noteq> Some (QStr ''energy_calculation'')"
      by simp
  qed
  have d: "fst (invoke env ?c s) = Inr (Str (resp_text (last ?rss)))"
    if "?rss \<noteq> [] \<and> \<not> startswith (resp_text (last ?rss)) ''OK''"
    using o that by presburger
  have len: "length ?rss = length ?evs"
    using o by blast
  have ok: "\<forall>rs \<in> set (butlast ?rss). startswith (resp_text rs) ''OK''"
    using o by blast
  have e: "http_requests ?evs = map (component_request ?u) ?cs
      \<and> (\<forall>rs \<in> set ?rss. startswith (resp_text rs) ''OK'')
      \<and> fst (invoke env ?c s) = Inr (Str energy_message)"
    if n: "\<not> (?rss \<noteq> [] \<and> \<not> startswith (resp_text (last ?rss)) ''OK'')"
  proof -
    have all: "\<forall>rs \<in> set ?rss. startswith (resp_text rs) ''OK''"
    proof (cases "?rss = []")
      case True
      then show ?thesis by simp
    next
      case False
      then have "set ?rss = insert (last ?rss) (set (butlast ?rss))"
        by (rule set_butlast_last)
      moreover from False n have "startswith (resp_text (last ?rss)) ''OK''"
        by blast
      ultimately show ?thesis
        using ok by simp
    qed
    from o n have len2: "length ?evs = length ?cs"
      and res: "fst (invoke env ?c s) =
        Inr (Str (if rejected_mode energy_calculation then energy_message
                  else CHR 0x0A # pformat env (success_dict ?cs ?rss)))"
      by presburger+
    from a len2 have "http_requests ?evs = map (component_request ?u) ?cs"
      by simp
    with res assms all show ?thesis
      by simp
  qed
  show ?thesis
    unfolding Let_def
    using a len ok b d e by (simp only: if_split) blast
qed

theorem setup_rejected_mode_witness:
  "rejected_mode (Some ''hourly'')
   \<and> fst (invoke demo_env
        (CallSetup ''house'' None None None None None None None (Some ''hourly'') True)
        demo_world) = Inr (Str energy_message)
   \<and> map r_params (http_requests (issued demo_env
        (CallSetup ''house'' None None None None None None None (Some ''hourly'') True)
        demo_world)) = [Some [''name'' \<mapsto> QStr ''house'', ''type'' \<mapsto> QStr ''database'']]"
proof -
  have h: "rejected_mode (Some ''hourly'')"
    by (rule demo_rejected)
  have p: "planned demo_env ''house'' None None None None None None None None True =
     [(True, [''name'' \<mapsto> QStr ''house'', ''type'' \<mapsto> QStr ''database''], None, ''Database'')]"
    by (simp add: planned_def components_def)
  from setup_rejected_mode [OF h, of "''house''" None None None None None None None True
      demo_env demo_world, unfolded Let_def, THEN conjunct2, THEN conjunct2, THEN conjunct2,
      THEN conjunct2]
  have "fst (invoke demo_env
        (CallSetup ''house'' None None None None None None None (Some ''hourly'') True)
        demo_world) = Inr (Str energy_message)
    \<and> http_requests (issued demo_env
        (CallSetup ''house'' None None None None None None None (Some ''hourly'') True)
        demo_world) =
      [component_request (url (self demo_world) @ ''/setup'')
         (True, [''name'' \<mapsto> QStr ''house'', ''type'' \<mapsto> QStr ''database''], None, ''Database'')]"
    by (simp add: Let_def demo_responses_rejected startswith_def p del: invoke.simps)
  with h show ?thesis
    by (simp add: component_request_def del: invoke.simps)
qed

end
